theory Spec2Isabelle
  imports Complex_Main "HOL-Library.Word" "HOL-Library.AList"
begin

unbundle bit_operations_syntax

section \<open>JavaScript values used by the program\<close>

subsection \<open>Numbers\<close>

text \<open>
  A JavaScript \<open>number\<close> is modelled as an exact rational or one of the three special
  values. Finite arithmetic is exact: the rounding of IEEE doubles is not modelled, and the two
  signed zeros are identified. The special values are kept because the program reaches them:
  \<open>0 / 0\<close> is \<open>NaN\<close>, \<open>undefined / x\<close> is \<open>NaN\<close>, \<open>x / 0\<close> is an infinity,
  and every comparison with \<open>NaN\<close> is false.
\<close>

datatype jsnum = Fin rat | PosInf | NegInf | NaN

fun inf_of_sign :: "rat \<Rightarrow> jsnum" where
  "inf_of_sign s = (if s = 0 then NaN else if 0 < s then PosInf else NegInf)"

fun js_sign :: "jsnum \<Rightarrow> rat" where
  "js_sign (Fin a) = sgn a"
| "js_sign PosInf = 1"
| "js_sign NegInf = - 1"
| "js_sign NaN = 0"

fun js_neg :: "jsnum \<Rightarrow> jsnum" where
  "js_neg (Fin a) = Fin (- a)"
| "js_neg PosInf = NegInf"
| "js_neg NegInf = PosInf"
| "js_neg NaN = NaN"

fun js_add :: "jsnum \<Rightarrow> jsnum \<Rightarrow> jsnum" where
  "js_add NaN _ = NaN"
| "js_add _ NaN = NaN"
| "js_add (Fin a) (Fin b) = Fin (a + b)"
| "js_add PosInf NegInf = NaN"
| "js_add NegInf PosInf = NaN"
| "js_add PosInf _ = PosInf"
| "js_add _ PosInf = PosInf"
| "js_add NegInf _ = NegInf"
| "js_add _ NegInf = NegInf"

definition js_sub :: "jsnum \<Rightarrow> jsnum \<Rightarrow> jsnum" where
  "js_sub a b = js_add a (js_neg b)"

fun js_mul :: "jsnum \<Rightarrow> jsnum \<Rightarrow> jsnum" where
  "js_mul NaN _ = NaN"
| "js_mul _ NaN = NaN"
| "js_mul (Fin a) (Fin b) = Fin (a * b)"
| "js_mul a b = inf_of_sign (js_sign a * js_sign b)"

fun js_div :: "jsnum \<Rightarrow> jsnum \<Rightarrow> jsnum" where
  "js_div NaN _ = NaN"
| "js_div _ NaN = NaN"
| "js_div (Fin a) (Fin b) = (if b = 0 then inf_of_sign (sgn a) else Fin (a / b))"
| "js_div (Fin a) _ = Fin 0"
| "js_div a (Fin b) = inf_of_sign (js_sign a * (if b < 0 then - 1 else 1))"
| "js_div _ _ = NaN"

text \<open>\<open>a >= b\<close> and \<open>a <= b\<close>.\<close>

fun js_ge :: "jsnum \<Rightarrow> jsnum \<Rightarrow> bool" where
  "js_ge NaN _ = False"
| "js_ge _ NaN = False"
| "js_ge (Fin a) (Fin b) = (b \<le> a)"
| "js_ge PosInf _ = True"
| "js_ge _ NegInf = True"
| "js_ge _ _ = False"

definition js_le :: "jsnum \<Rightarrow> jsnum \<Rightarrow> bool" where
  "js_le a b = js_ge b a"

subsection \<open>Strings\<close>

text \<open>
  A JavaScript string is a sequence of UTF-16 code units; \<open>length\<close>, indexing and
  \<open>===\<close> on characters all work on code units. \<open>ascii\<close> writes a string literal of
  the source whose characters are all in the ASCII range.
\<close>

type_synonym code_unit = "16 word"
type_synonym jsstring = "code_unit list"

definition ascii :: "string \<Rightarrow> jsstring" where
  "ascii s = map of_char s"

text \<open>\<open>str[i]\<close>: the code unit at index \<open>i\<close>, \<open>undefined\<close> out of range.\<close>

definition char_at :: "jsstring \<Rightarrow> nat \<Rightarrow> code_unit option" where
  "char_at s i = (if i < length s then Some (s ! i) else None)"

text \<open>\<open>hay.includes(needle)\<close>: \<open>needle\<close> occurs in \<open>hay\<close> as a contiguous run.\<close>

fun starts_with :: "jsstring \<Rightarrow> jsstring \<Rightarrow> bool" where
  "starts_with _ [] = True"
| "starts_with [] (_ # _) = False"
| "starts_with (h # hs) (n # ns) = (h = n \<and> starts_with hs ns)"

fun str_includes :: "jsstring \<Rightarrow> jsstring \<Rightarrow> bool" where
  "str_includes [] needle = starts_with [] needle"
| "str_includes (h # hs) needle = (starts_with (h # hs) needle \<or> str_includes hs needle)"

text \<open>Decimal digits of a non-negative integer, as in a template literal.\<close>

fun decimal :: "nat \<Rightarrow> jsstring" where
  "decimal n = (if n < 10 then [of_nat (48 + n)] else decimal (n div 10) @ [of_nat (48 + n mod 10)])"

declare decimal.simps [simp del]

section \<open>The verifier (src/workflows/verifier.ts)\<close>

subsection \<open>stringSimilarity\<close>

text \<open>
  An array is a partial map from indices to values; reading an index that was never written
  gives \<open>undefined\<close> (\<open>None\<close>). \<open>matrix\<close> is an array of rows.
\<close>

type_synonym 'a jsarray = "nat \<Rightarrow> 'a option"

text \<open>\<open>matrix[i]?.[j]\<close>\<close>

definition matrix_get :: "nat jsarray jsarray \<Rightarrow> nat \<Rightarrow> nat \<Rightarrow> nat option" where
  "matrix_get matrix i j = (case matrix i of None \<Rightarrow> None | Some row \<Rightarrow> row j)"

text \<open>\<open>for (let i = 0; i <= len1; i++) matrix[i] = [i];\<close>\<close>

definition init_rows :: "nat \<Rightarrow> nat jsarray jsarray" where
  "init_rows len1 = fold (\<lambda>i matrix. matrix(i \<mapsto> [0 \<mapsto> i])) [0..<Suc len1] Map.empty"

text \<open>\<open>for (let j = 0; j <= len2; j++) if (matrix[0]) matrix[0][j] = j;\<close>\<close>

definition init_first_row :: "nat \<Rightarrow> nat jsarray jsarray \<Rightarrow> nat jsarray jsarray" where
  "init_first_row len2 matrix0 =
     fold (\<lambda>j matrix. case matrix 0 of None \<Rightarrow> matrix | Some row0 \<Rightarrow> matrix(0 \<mapsto> row0(j \<mapsto> j)))
       [0..<Suc len2] matrix0"

text \<open>The body of the inner loop, with its guard against undefined cells.\<close>

definition fill_cell ::
  "jsstring \<Rightarrow> jsstring \<Rightarrow> nat \<Rightarrow> nat \<Rightarrow> nat jsarray jsarray \<Rightarrow> nat jsarray jsarray" where
  "fill_cell str1 str2 i j matrix =
     (let cost = (if char_at str1 (i - 1) = char_at str2 (j - 1) then 0 else 1 :: nat);
          prevRow = matrix (i - 1);
          currRow = matrix i;
          prevCell = matrix_get matrix i (j - 1);
          diagCell = matrix_get matrix (i - 1) (j - 1);
          prevRowCell = matrix_get matrix (i - 1) j
      in case (currRow, prevRow, prevCell, diagCell, prevRowCell) of
           (Some cr, Some pr, Some pc, Some dc, Some prc) \<Rightarrow>
             matrix(i \<mapsto> cr(j \<mapsto> min (prc + 1) (min (pc + 1) (dc + cost))))
         | _ \<Rightarrow> matrix)"

definition fill_matrix ::
  "jsstring \<Rightarrow> jsstring \<Rightarrow> nat jsarray jsarray \<Rightarrow> nat jsarray jsarray" where
  "fill_matrix str1 str2 matrix0 =
     fold (\<lambda>i matrix. fold (fill_cell str1 str2 i) [1..<Suc (length str2)] matrix)
       [1..<Suc (length str1)] matrix0"

definition levenshtein_matrix :: "jsstring \<Rightarrow> jsstring \<Rightarrow> nat jsarray jsarray" where
  "levenshtein_matrix str1 str2 =
     fill_matrix str1 str2 (init_first_row (length str2) (init_rows (length str1)))"

definition stringSimilarity :: "jsstring \<Rightarrow> jsstring \<Rightarrow> jsnum" where
  "stringSimilarity str1 str2 =
     (let len1 = length str1;
          len2 = length str2;
          distance = matrix_get (levenshtein_matrix str1 str2) len1 len2
      in case distance of
           None \<Rightarrow> Fin 0
         | Some d \<Rightarrow> js_sub (Fin 1) (js_div (Fin (of_nat d)) (Fin (of_nat (max len1 len2)))))"

text \<open>
  The edit-distance recurrence that the loops are meant to compute: \<open>lev s t i j\<close> is the
  distance between the first \<open>i\<close> code units of \<open>s\<close> and the first \<open>j\<close> of \<open>t\<close>.
\<close>

fun lev :: "jsstring \<Rightarrow> jsstring \<Rightarrow> nat \<Rightarrow> nat \<Rightarrow> nat" where
  "lev s t 0 j = j"
| "lev s t (Suc i) 0 = Suc i"
| "lev s t (Suc i) (Suc j) =
     min (lev s t i (Suc j) + 1)
       (min (lev s t (Suc i) j + 1)
          (lev s t i j + (if char_at s i = char_at t j then 0 else 1)))"


subsection \<open>Runtime services\<close>

text \<open>
  Built-in operations of the JavaScript runtime that the program calls and that are not part
  of the repository. They are parameters of the model: every theorem below holds for any
  choice of them.
  \<^item> \<open>toLowerCase\<close> is \<open>String.prototype.toLowerCase\<close>;
  \<^item> \<open>toFixed1\<close> is \<open>Number.prototype.toFixed(1)\<close>;
  \<^item> \<open>dateNowISO\<close> is the value of \<open>new Date().toISOString()\<close> at the call;
  \<^item> \<open>toStringValue\<close> is the conversion of a parsed JSON value that is not a string to a
    property key.
\<close>

datatype jsval =
    JNull
  | JBool bool
  | JNum jsnum
  | JStr jsstring
  | JArr "jsval list"
  | JObj "(jsstring \<times> jsval) list"

record js_runtime =
  toLowerCase :: "jsstring \<Rightarrow> jsstring"
  toFixed1 :: "jsnum \<Rightarrow> jsstring"
  dateNowISO :: jsstring
  toStringValue :: "jsval \<Rightarrow> jsstring"

subsection \<open>Data model (types.ts)\<close>

record VerificationMetadata =
  bilibiliFollowers :: "jsnum option"
  youtubeSubscribers :: "jsnum option"
  avatarSimilarity :: "jsnum option"
  usernameSimilarity :: "jsnum option"
  bioMatch :: "bool option"
  youtubeVerified :: "bool option"
  matchingVideos :: "jsnum option"
  issueNumber :: "jsnum option"

datatype verified_by = Auto | Manual

record UserMapping =
  bilibiliUid :: jsstring
  bilibiliUsername :: jsstring
  bilibiliAvatar :: "jsstring option"
  youtubeChannelId :: jsstring
  youtubeChannelName :: jsstring
  youtubeAvatar :: "jsstring option"
  verificationLevel :: nat
  verifiedAt :: jsstring
  verifiedBy :: verified_by
  um_metadata :: "VerificationMetadata option"

record BilibiliOfficial =
  bo_type :: jsnum
  bo_desc :: jsstring

record BilibiliUser =
  bu_uid :: jsstring
  bu_name :: jsstring
  bu_face :: jsstring
  bu_sign :: jsstring
  bu_follower :: jsnum
  bu_level :: jsnum
  bu_official :: "BilibiliOfficial option"

record BilibiliVideo =
  bv_bvid :: jsstring
  bv_aid :: jsnum
  bv_title :: jsstring
  bv_pic :: jsstring
  bv_author :: jsstring
  bv_mid :: jsnum
  bv_created :: jsnum
  bv_length :: jsstring
  bv_play :: jsnum
  bv_danmaku :: jsnum

record Thumbnails =
  th_default :: jsstring
  th_medium :: jsstring
  th_high :: jsstring

record YouTubeChannel =
  yc_id :: jsstring
  yc_title :: jsstring
  yc_description :: jsstring
  yc_customUrl :: "jsstring option"
  yc_thumbnails :: Thumbnails
  yc_subscriberCount :: "jsnum option"
  yc_videoCount :: "jsnum option"
  yc_verified :: "bool option"

record YouTubeVideo =
  yv_id :: jsstring
  yv_title :: jsstring
  yv_description :: jsstring
  yv_channelId :: jsstring
  yv_channelTitle :: jsstring
  yv_publishedAt :: jsstring
  yv_thumbnails :: Thumbnails
  yv_duration :: jsstring
  yv_viewCount :: "jsnum option"

record VerificationResult =
  vr_success :: bool
  vr_level :: nat
  vr_confidence :: jsnum
  vr_reasons :: "jsstring list"
  vr_metadata :: VerificationMetadata
  vr_mapping :: "UserMapping option"

definition empty_metadata :: VerificationMetadata where
  "empty_metadata =
     \<lparr>bilibiliFollowers = None, youtubeSubscribers = None, avatarSimilarity = None,
      usernameSimilarity = None, bioMatch = None, youtubeVerified = None,
      matchingVideos = None, issueNumber = None\<rparr>"

subsection \<open>normalizeUsername\<close>

text \<open>
  The code units matched by the class \<open>[_\-\s]\<close>: underscore, hyphen, and the white space and
  line terminators of \<open>\s\<close>.
\<close>

definition separator_units :: "code_unit list" where
  "separator_units =
     [0x5F, 0x2D, 0x09, 0x0A, 0x0B, 0x0C, 0x0D, 0x20, 0xA0, 0x1680,
      0x2000, 0x2001, 0x2002, 0x2003, 0x2004, 0x2005, 0x2006, 0x2007, 0x2008, 0x2009, 0x200A,
      0x2028, 0x2029, 0x202F, 0x205F, 0x3000, 0xFEFF]"

definition strip_separators :: "jsstring \<Rightarrow> jsstring" where
  "strip_separators s = filter (\<lambda>c. c \<notin> set separator_units) s"

text \<open>
  Matching under the flag \<open>i\<close> of a pattern character \<open>p\<close> that is a lower-case ASCII
  letter or has no case: the subject character is \<open>p\<close> or its ASCII upper-case form.
\<close>

definition ci_unit_eq :: "code_unit \<Rightarrow> code_unit \<Rightarrow> bool" where
  "ci_unit_eq p c = (c = p \<or> (0x61 \<le> p \<and> p \<le> 0x7A \<and> c = p - 0x20))"

fun ci_starts_with :: "jsstring \<Rightarrow> jsstring \<Rightarrow> bool" where
  "ci_starts_with _ [] = True"
| "ci_starts_with [] (_ # _) = False"
| "ci_starts_with (h # hs) (p # ps) = (ci_unit_eq p h \<and> ci_starts_with hs ps)"

definition token_official :: jsstring where "token_official = ascii ''official''"
definition token_pindao :: jsstring where "token_pindao = [0x9891, 0x9053]"
definition token_channel :: jsstring where "token_channel = ascii ''channel''"

text \<open>
  The second replacement, with the pattern \<open>official|PD|channel\<close> under the flags \<open>gi\<close>, where
  \<open>PD\<close> stands for the two code units U+9891 U+9053: scanning from the left, at each position the
  alternatives are tried in order; a match is removed and the scan goes on behind it.
\<close>

function strip_tokens :: "jsstring \<Rightarrow> jsstring" where
  "strip_tokens [] = []"
| "strip_tokens (c # cs) =
     (if ci_starts_with (c # cs) token_official then strip_tokens (drop 7 cs)
      else if ci_starts_with (c # cs) token_pindao then strip_tokens (drop 1 cs)
      else if ci_starts_with (c # cs) token_channel then strip_tokens (drop 6 cs)
      else c # strip_tokens cs)"
  by pat_completeness auto
termination
  by (relation "measure length") auto

definition normalizeUsername :: "js_runtime \<Rightarrow> jsstring \<Rightarrow> jsstring" where
  "normalizeUsername rt username = strip_tokens (strip_separators (toLowerCase rt username))"

subsection \<open>checkBioMatch\<close>

definition checkBioMatch ::
  "js_runtime \<Rightarrow> jsstring \<Rightarrow> jsstring \<Rightarrow> jsstring \<Rightarrow> jsstring \<Rightarrow> bool" where
  "checkBioMatch rt biliSign ytDescription biliUid ytChannelId =
     (let biliLower = toLowerCase rt biliSign;
          ytLower = toLowerCase rt ytDescription;
          ytPatterns = [toLowerCase rt ytChannelId, ascii ''youtube.com'', ascii ''youtu.be''];
          biliMentionsYt = list_ex (\<lambda>pattern. str_includes biliLower pattern) ytPatterns;
          biliPatterns = [biliUid, ascii ''bilibili.com'', ascii ''b'' @ [0x7AD9],
                          ascii ''b'' @ [0x7AD9, 0x7A7A, 0x95F4]];
          ytMentionsBili = list_ex (\<lambda>pattern. str_includes ytLower pattern) biliPatterns
      in biliMentionsYt \<or> ytMentionsBili)"


subsection \<open>UserVerifier\<close>

text \<open>
  A value thrown by a collaborator, represented by its rendering in a template literal.
\<close>

datatype js_error = Thrown jsstring

fun error_text :: "js_error \<Rightarrow> jsstring" where
  "error_text (Thrown s) = s"

text \<open>
  The two API clients handed to the constructor. Each method either returns or throws;
  \<open>verify\<close> calls each at most once.
\<close>

record Apis =
  getUserInfo :: "jsstring \<Rightarrow> js_error + BilibiliUser"
  getChannel :: "jsstring \<Rightarrow> js_error + YouTubeChannel"
  getUserVideos :: "jsstring \<Rightarrow> nat \<Rightarrow> nat \<Rightarrow> js_error + BilibiliVideo list"
  getChannelVideos :: "jsstring \<Rightarrow> nat \<Rightarrow> js_error + YouTubeVideo list"

definition createMapping ::
  "js_runtime \<Rightarrow> BilibiliUser \<Rightarrow> YouTubeChannel \<Rightarrow> nat \<Rightarrow> VerificationMetadata \<Rightarrow> UserMapping" where
  "createMapping rt biliUser ytChannel lvl metadata =
     \<lparr>bilibiliUid = bu_uid biliUser,
      bilibiliUsername = bu_name biliUser,
      bilibiliAvatar = Some (bu_face biliUser),
      youtubeChannelId = yc_id ytChannel,
      youtubeChannelName = yc_title ytChannel,
      youtubeAvatar = Some (th_high (yc_thumbnails ytChannel)),
      verificationLevel = lvl,
      verifiedAt = dateNowISO rt,
      verifiedBy = Auto,
      um_metadata = Some metadata\<rparr>"

text \<open>\<open>`${(nameSimilarity * 100).toFixed(1)}%`\<close>\<close>

definition percent :: "js_runtime \<Rightarrow> jsnum \<Rightarrow> jsstring" where
  "percent rt nameSimilarity = toFixed1 rt (js_mul nameSimilarity (Fin 100)) @ ascii ''%''"

definition nameSimilarityOf :: "js_runtime \<Rightarrow> BilibiliUser \<Rightarrow> YouTubeChannel \<Rightarrow> jsnum" where
  "nameSimilarityOf rt biliUser ytChannel =
     stringSimilarity (normalizeUsername rt (bu_name biliUser)) (normalizeUsername rt (yc_title ytChannel))"

text \<open>The inner loop over \<open>ytVideos\<close>: true when the \<open>break\<close> is reached.\<close>

fun has_matching_title :: "js_runtime \<Rightarrow> BilibiliVideo \<Rightarrow> YouTubeVideo list \<Rightarrow> bool" where
  "has_matching_title rt biliVideo [] = False"
| "has_matching_title rt biliVideo (ytVideo # rest) =
     (let titleSimilarity =
            stringSimilarity (toLowerCase rt (bv_title biliVideo)) (toLowerCase rt (yv_title ytVideo))
      in if js_ge titleSimilarity (Fin (7 / 10)) then True
         else has_matching_title rt biliVideo rest)"

text \<open>The outer loop over \<open>biliVideos\<close>, with the counter \<open>matchingVideos\<close>.\<close>

fun count_matching_videos ::
  "js_runtime \<Rightarrow> BilibiliVideo list \<Rightarrow> YouTubeVideo list \<Rightarrow> nat \<Rightarrow> nat" where
  "count_matching_videos rt [] ytVideos n = n"
| "count_matching_videos rt (biliVideo # rest) ytVideos n =
     count_matching_videos rt rest ytVideos
       (if has_matching_title rt biliVideo ytVideos then n + 1 else n)"

text \<open>
  \<open>ytChannel.subscriberCount! / biliUser.follower\<close>: the non-null assertion has no effect at
  run time, and a missing count is \<open>undefined\<close>, which division converts to \<open>NaN\<close>.
\<close>

definition followerRatioOf :: "BilibiliUser \<Rightarrow> YouTubeChannel \<Rightarrow> jsnum" where
  "followerRatioOf biliUser ytChannel =
     js_div (case yc_subscriberCount ytChannel of None \<Rightarrow> NaN | Some n \<Rightarrow> n) (bu_follower biliUser)"

text \<open>
  Level 3 and level 4 (the code after the two video fetches): the confidence and the
  reasons are threaded through the three scoring steps.
\<close>

definition score_level3 ::
  "js_runtime \<Rightarrow> BilibiliUser \<Rightarrow> YouTubeChannel \<Rightarrow> jsnum \<Rightarrow> VerificationMetadata \<Rightarrow>
   BilibiliVideo list \<Rightarrow> YouTubeVideo list \<Rightarrow> VerificationResult" where
  "score_level3 rt biliUser ytChannel nameSimilarity metadata0 biliVideos ytVideos =
     (let matching = count_matching_videos rt biliVideos ytVideos 0;
          metadata = metadata0\<lparr>matchingVideos := Some (Fin (of_nat matching))\<rparr>;
          followerRatio = followerRatioOf biliUser ytChannel;
          followerRatioValid = (js_ge followerRatio (Fin (1 / 2)) \<and> js_le followerRatio (Fin 2));
          (confidence1, reasons1) =
             (if js_ge nameSimilarity (Fin (4 / 5))
              then (js_add (Fin 0) (Fin (2 / 5)),
                    [ascii ''High username similarity: '' @ percent rt nameSimilarity])
              else if js_ge nameSimilarity (Fin (3 / 5))
              then (js_add (Fin 0) (Fin (1 / 5)),
                    [ascii ''Moderate username similarity: '' @ percent rt nameSimilarity])
              else (Fin 0, []));
          (confidence2, reasons2) =
             (if 3 \<le> matching
              then (js_add confidence1 (Fin (3 / 10)),
                    reasons1 @ [decimal matching @ ascii '' matching video titles''])
              else if 1 \<le> matching
              then (js_add confidence1 (Fin (3 / 20)),
                    reasons1 @ [decimal matching @ ascii '' matching video title(s)''])
              else (confidence1, reasons1));
          (confidence, reasons) =
             (if followerRatioValid
              then (js_add confidence2 (Fin (3 / 20)),
                    reasons2 @ [ascii ''Follower count ratio is reasonable''])
              else (confidence2, reasons2))
      in if js_ge confidence (Fin (7 / 10))
         then \<lparr>vr_success = True, vr_level = 3, vr_confidence = confidence, vr_reasons = reasons,
               vr_metadata = metadata,
               vr_mapping = Some (createMapping rt biliUser ytChannel 3 metadata)\<rparr>
         else \<lparr>vr_success = False, vr_level = 4, vr_confidence = confidence,
               vr_reasons = [ascii ''Insufficient confidence for automatic verification''] @ reasons @
                            [ascii ''Manual review required''],
               vr_metadata = metadata,
               vr_mapping = None\<rparr>)"

text \<open>The body of the \<open>try\<close> block: \<open>Inl\<close> is a thrown value.\<close>

definition verify_try ::
  "js_runtime \<Rightarrow> Apis \<Rightarrow> jsstring \<Rightarrow> jsstring \<Rightarrow> js_error + VerificationResult" where
  "verify_try rt apis biliUid ytChannelId =
     (case getUserInfo apis biliUid of Inl e \<Rightarrow> Inl e | Inr biliUser \<Rightarrow>
      case getChannel apis ytChannelId of Inl e \<Rightarrow> Inl e | Inr ytChannel \<Rightarrow>
        let metadata0 = empty_metadata
              \<lparr>bilibiliFollowers := Some (bu_follower biliUser),
               youtubeSubscribers := yc_subscriberCount ytChannel\<rparr>;
            nameSimilarity = nameSimilarityOf rt biliUser ytChannel;
            verified = (yc_verified ytChannel = Some True);
            metadata1 = (if verified
                         then metadata0\<lparr>usernameSimilarity := Some nameSimilarity,
                                        youtubeVerified := Some True\<rparr>
                         else metadata0)
        in if verified \<and> js_ge nameSimilarity (Fin (4 / 5))
           then Inr \<lparr>vr_success = True, vr_level = 1,
                     vr_confidence = js_add (Fin (19 / 20)) (js_mul nameSimilarity (Fin (1 / 20))),
                     vr_reasons = [ascii ''YouTube channel is verified'',
                                   ascii ''Username similarity: '' @ percent rt nameSimilarity],
                     vr_metadata = metadata1,
                     vr_mapping = Some (createMapping rt biliUser ytChannel 1 metadata1)\<rparr>
           else
             let matched = checkBioMatch rt (bu_sign biliUser) (yc_description ytChannel)
                             biliUid ytChannelId;
                 metadata2 = metadata1\<lparr>bioMatch := Some matched,
                                        usernameSimilarity := Some nameSimilarity\<rparr>
             in if matched
                then Inr \<lparr>vr_success = True, vr_level = 2, vr_confidence = Fin (17 / 20),
                          vr_reasons = filter (\<lambda>r. r \<noteq> [])
                            [ascii ''Cross-platform bio mentions detected'',
                             if matched then ascii ''Bio contains platform link'' else []],
                          vr_metadata = metadata2,
                          vr_mapping = Some (createMapping rt biliUser ytChannel 2 metadata2)\<rparr>
                else
                  (case getUserVideos apis biliUid 1 10 of Inl e \<Rightarrow> Inl e | Inr biliVideos \<Rightarrow>
                   case getChannelVideos apis ytChannelId 10 of Inl e \<Rightarrow> Inl e | Inr ytVideos \<Rightarrow>
                     Inr (score_level3 rt biliUser ytChannel nameSimilarity metadata2
                            biliVideos ytVideos)))"

text \<open>The result built by the \<open>catch\<close> block.\<close>

definition verification_failed :: "js_error \<Rightarrow> VerificationResult" where
  "verification_failed e =
     \<lparr>vr_success = False, vr_level = 4, vr_confidence = Fin 0,
      vr_reasons = [ascii ''Verification failed: '' @ error_text e],
      vr_metadata = empty_metadata,
      vr_mapping = None\<rparr>"

definition verify :: "js_runtime \<Rightarrow> Apis \<Rightarrow> jsstring \<Rightarrow> jsstring \<Rightarrow> VerificationResult" where
  "verify rt apis biliUid ytChannelId =
     (case verify_try rt apis biliUid ytChannelId of
        Inl e \<Rightarrow> verification_failed e
      | Inr r \<Rightarrow> r)"

section \<open>Notions used to state the properties of the verifier\<close>

text \<open>The three additive contributions to the level-3 confidence.\<close>

definition name_bonus :: "jsnum \<Rightarrow> rat" where
  "name_bonus similarity =
     (if js_ge similarity (Fin (4 / 5)) then 2 / 5
      else if js_ge similarity (Fin (3 / 5)) then 1 / 5 else 0)"

definition video_bonus :: "nat \<Rightarrow> rat" where
  "video_bonus n = (if 3 \<le> n then 3 / 10 else if 1 \<le> n then 3 / 20 else 0)"

definition ratio_bonus :: "jsnum \<Rightarrow> rat" where
  "ratio_bonus ratio = (if js_ge ratio (Fin (1 / 2)) \<and> js_le ratio (Fin 2) then 3 / 20 else 0)"

text \<open>
  Two titles match when the similarity of their lower-cased forms is at least 0.7.
  \<open>matched_sources\<close> counts the source videos that have at least one matching target
  video; \<open>similar_pairs\<close> counts the matching (source, target) pairs.
\<close>

definition titles_similar :: "js_runtime \<Rightarrow> BilibiliVideo \<Rightarrow> YouTubeVideo \<Rightarrow> bool" where
  "titles_similar rt b y =
     js_ge (stringSimilarity (toLowerCase rt (bv_title b)) (toLowerCase rt (yv_title y))) (Fin (7 / 10))"

definition matched_sources :: "js_runtime \<Rightarrow> BilibiliVideo list \<Rightarrow> YouTubeVideo list \<Rightarrow> nat" where
  "matched_sources rt bs ys = length (filter (\<lambda>b. list_ex (titles_similar rt b) ys) bs)"


text \<open>The condition under which \<open>verify\<close> returns at level 1.\<close>

definition level1_succeeds :: "js_runtime \<Rightarrow> BilibiliUser \<Rightarrow> YouTubeChannel \<Rightarrow> bool" where
  "level1_succeeds rt biliUser ytChannel =
     (yc_verified ytChannel = Some True \<and> js_ge (nameSimilarityOf rt biliUser ytChannel) (Fin (4 / 5)))"

text \<open>
  The level-3 confidence as the code computes it, and as it reads when matching titles are
  counted as pairs.
\<close>

definition level3_score ::
  "js_runtime \<Rightarrow> BilibiliUser \<Rightarrow> YouTubeChannel \<Rightarrow> BilibiliVideo list \<Rightarrow> YouTubeVideo list \<Rightarrow> rat" where
  "level3_score rt biliUser ytChannel biliVideos ytVideos =
     name_bonus (nameSimilarityOf rt biliUser ytChannel) +
     video_bonus (matched_sources rt biliVideos ytVideos) +
     ratio_bonus (followerRatioOf biliUser ytChannel)"




subsection \<open>Concrete inputs for the examples\<close>

text \<open>
  A runtime for the examples: on strings of ASCII characters \<open>ascii_toLowerCase\<close> is
  \<open>toLowerCase\<close>, and \<open>toFixed1_model\<close> rounds an exact decimal to one digit. The
  examples never convert a value that is not a string to a property key.
\<close>

definition ascii_toLowerCase :: "jsstring \<Rightarrow> jsstring" where
  "ascii_toLowerCase s = map (\<lambda>c. if 0x41 \<le> c \<and> c \<le> 0x5A then c + 0x20 else c) s"

fun toFixed1_model :: "jsnum \<Rightarrow> jsstring" where
  "toFixed1_model (Fin r) =
     (let n = nat \<lfloor>\<bar>r\<bar> * 10 + 1 / 2\<rfloor>
      in (if r < 0 then ascii ''-'' else []) @ decimal (n div 10) @ ascii ''.'' @ decimal (n mod 10))"
| "toFixed1_model PosInf = ascii ''Infinity''"
| "toFixed1_model NegInf = ascii ''-Infinity''"
| "toFixed1_model NaN = ascii ''NaN''"

definition example_runtime :: js_runtime where
  "example_runtime =
     \<lparr>toLowerCase = ascii_toLowerCase, toFixed1 = toFixed1_model,
      dateNowISO = ascii ''2025-12-16T00:00:00.000Z'',
      toStringValue = (\<lambda>v. ascii ''[object Object]'')\<rparr>"

definition example_user :: "jsstring \<Rightarrow> jsstring \<Rightarrow> jsstring \<Rightarrow> jsnum \<Rightarrow> BilibiliUser" where
  "example_user uid name sign follower =
     \<lparr>bu_uid = uid, bu_name = name, bu_face = ascii ''face.jpg'', bu_sign = sign,
      bu_follower = follower, bu_level = Fin 6, bu_official = None\<rparr>"

definition example_channel ::
  "jsstring \<Rightarrow> jsstring \<Rightarrow> jsstring \<Rightarrow> jsnum option \<Rightarrow> bool option \<Rightarrow> YouTubeChannel" where
  "example_channel cid title description subscribers verified =
     \<lparr>yc_id = cid, yc_title = title, yc_description = description, yc_customUrl = None,
      yc_thumbnails = \<lparr>th_default = ascii ''d.jpg'', th_medium = ascii ''m.jpg'', th_high = ascii ''h.jpg''\<rparr>,
      yc_subscriberCount = subscribers, yc_videoCount = Some (Fin 100), yc_verified = verified\<rparr>"

definition example_bili_video :: "jsstring \<Rightarrow> BilibiliVideo" where
  "example_bili_video title =
     \<lparr>bv_bvid = ascii ''BV1'', bv_aid = Fin 1, bv_title = title, bv_pic = ascii ''pic1.jpg'',
      bv_author = ascii ''ab'', bv_mid = Fin 123, bv_created = Fin 1234567890,
      bv_length = ascii ''10:00'', bv_play = Fin 1000, bv_danmaku = Fin 100\<rparr>"

definition example_yt_video :: "jsstring \<Rightarrow> YouTubeVideo" where
  "example_yt_video title =
     \<lparr>yv_id = ascii ''vid1'', yv_title = title, yv_description = ascii ''desc'',
      yv_channelId = ascii ''UCx'', yv_channelTitle = ascii ''ab'',
      yv_publishedAt = ascii ''2024-01-01T00:00:00Z'',
      yv_thumbnails = \<lparr>th_default = ascii ''d.jpg'', th_medium = ascii ''m.jpg'', th_high = ascii ''h.jpg''\<rparr>,
      yv_duration = ascii ''PT10M'', yv_viewCount = Some (Fin 1000)\<rparr>"

definition example_apis ::
  "js_error + BilibiliUser \<Rightarrow> js_error + YouTubeChannel \<Rightarrow> js_error + BilibiliVideo list \<Rightarrow>
   js_error + YouTubeVideo list \<Rightarrow> Apis" where
  "example_apis user channel biliVideos ytVideos =
     \<lparr>getUserInfo = (\<lambda>uid. user), getChannel = (\<lambda>cid. channel),
      getUserVideos = (\<lambda>uid page pageSize. biliVideos),
      getChannelVideos = (\<lambda>cid maxResults. ytVideos)\<rparr>"


definition apis_no_subscribers :: Apis where
  "apis_no_subscribers =
     example_apis (Inr (example_user (ascii ''1'') (ascii ''ab'') [] (Fin 100)))
       (Inr (example_channel (ascii ''UCx'') (ascii ''ab'') [] None None))
       (Inr [example_bili_video (ascii ''x'')])
       (Inr [example_yt_video (ascii ''x'')])"



section \<open>The shard manager (src/storage/shard-manager.ts)\<close>

subsection \<open>SHA-256\<close>

text \<open>
  \<open>crypto.createHash('sha256').update(userId).digest('hex')\<close> hashes the UTF-8 encoding of
  the string with SHA-256 (FIPS 180-4) and prints the digest in lower-case hexadecimal. Words
  of 32 bits are natural numbers below \<open>2 ^ 32\<close>, with the wrap-around of addition written
  out.
\<close>

definition add32 :: "nat \<Rightarrow> nat \<Rightarrow> nat" where
  "add32 x y = (x + y) mod 4294967296"

definition rotr32 :: "nat \<Rightarrow> nat \<Rightarrow> nat" where
  "rotr32 n x = x div 2 ^ n + (x mod 2 ^ n) * 2 ^ (32 - n)"

definition sha_ch :: "nat \<Rightarrow> nat \<Rightarrow> nat \<Rightarrow> nat" where
  "sha_ch x y z = (x AND y) XOR ((4294967295 - x) AND z)"

definition sha_maj :: "nat \<Rightarrow> nat \<Rightarrow> nat \<Rightarrow> nat" where
  "sha_maj x y z = ((x AND y) XOR (x AND z)) XOR (y AND z)"

definition big_sigma0 :: "nat \<Rightarrow> nat" where
  "big_sigma0 x = (rotr32 2 x XOR rotr32 13 x) XOR rotr32 22 x"

definition big_sigma1 :: "nat \<Rightarrow> nat" where
  "big_sigma1 x = (rotr32 6 x XOR rotr32 11 x) XOR rotr32 25 x"

definition small_sigma0 :: "nat \<Rightarrow> nat" where
  "small_sigma0 x = (rotr32 7 x XOR rotr32 18 x) XOR (x div 2 ^ 3)"

definition small_sigma1 :: "nat \<Rightarrow> nat" where
  "small_sigma1 x = (rotr32 17 x XOR rotr32 19 x) XOR (x div 2 ^ 10)"

text \<open>The round constants and the initial hash value, in decimal.\<close>

definition sha256_K :: "nat list" where
  "sha256_K =
    [1116352408, 1899447441, 3049323471, 3921009573, 961987163, 1508970993,
     2453635748, 2870763221, 3624381080, 310598401, 607225278, 1426881987,
     1925078388, 2162078206, 2614888103, 3248222580, 3835390401, 4022224774,
     264347078, 604807628, 770255983, 1249150122, 1555081692, 1996064986,
     2554220882, 2821834349, 2952996808, 3210313671, 3336571891, 3584528711,
     113926993, 338241895, 666307205, 773529912, 1294757372, 1396182291,
     1695183700, 1986661051, 2177026350, 2456956037, 2730485921, 2820302411,
     3259730800, 3345764771, 3516065817, 3600352804, 4094571909, 275423344,
     430227734, 506948616, 659060556, 883997877, 958139571, 1322822218,
     1537002063, 1747873779, 1955562222, 2024104815, 2227730452, 2361852424,
     2428436474, 2756734187, 3204031479, 3329325298]"

definition sha256_H0 :: "nat list" where
  "sha256_H0 =
    [1779033703, 3144134277, 1013904242, 2773480762, 1359893119, 2600822924,
     528734635, 1541459225]"

text \<open>
  The message schedule, most recent word first: \<open>ws ! 1\<close> is \<open>W\<^sub>t\<^sub>-\<^sub>2\<close>, \<open>ws ! 6\<close>
  is \<open>W\<^sub>t\<^sub>-\<^sub>7\<close>, \<open>ws ! 14\<close> is \<open>W\<^sub>t\<^sub>-\<^sub>1\<^sub>5\<close> and \<open>ws ! 15\<close> is \<open>W\<^sub>t\<^sub>-\<^sub>1\<^sub>6\<close>.
\<close>

fun sha_schedule :: "nat \<Rightarrow> nat list \<Rightarrow> nat list" where
  "sha_schedule 0 ws = ws"
| "sha_schedule (Suc n) ws =
     sha_schedule n
       (add32 (add32 (add32 (small_sigma1 (ws ! 1)) (ws ! 6)) (small_sigma0 (ws ! 14))) (ws ! 15) # ws)"

fun sha_round :: "nat list \<Rightarrow> nat \<times> nat \<Rightarrow> nat list" where
  "sha_round [a, b, c, d, e, f, g, h] (k, w) =
     (let t1 = add32 (add32 (add32 (add32 h (big_sigma1 e)) (sha_ch e f g)) k) w;
          t2 = add32 (big_sigma0 a) (sha_maj a b c)
      in [add32 t1 t2, a, b, c, add32 d t1, e, f, g])"
| "sha_round st _ = st"

definition sha_compress :: "nat list \<Rightarrow> nat list \<Rightarrow> nat list" where
  "sha_compress hs block =
     map2 add32 hs (foldl sha_round hs (zip sha256_K (rev (sha_schedule 48 (rev block)))))"

fun be_words :: "nat list \<Rightarrow> nat list" where
  "be_words (a # b # c # d # bytes) = (((a * 256 + b) * 256 + c) * 256 + d) # be_words bytes"
| "be_words _ = []"

definition sha_pad :: "nat list \<Rightarrow> nat list" where
  "sha_pad m =
     (let l = length m;
          zeros = (55 + 64 - l mod 64) mod 64;
          bits = 8 * l
      in m @ [0x80] @ replicate zeros 0 @
         [bits div 2 ^ 56 mod 256, bits div 2 ^ 48 mod 256, bits div 2 ^ 40 mod 256,
          bits div 2 ^ 32 mod 256, bits div 2 ^ 24 mod 256, bits div 2 ^ 16 mod 256,
          bits div 2 ^ 8 mod 256, bits mod 256])"

fun sha_blocks :: "nat \<Rightarrow> nat list \<Rightarrow> nat list list" where
  "sha_blocks 0 ws = []"
| "sha_blocks (Suc n) ws = take 16 ws # sha_blocks n (drop 16 ws)"

definition sha256 :: "nat list \<Rightarrow> nat list" where
  "sha256 m =
     (let ws = be_words (sha_pad m)
      in foldl sha_compress sha256_H0 (sha_blocks (length ws div 16) ws))"

text \<open>UTF-8 encoding of a string; a surrogate without its partner becomes U+FFFD.\<close>

definition utf8_of_code_point :: "nat \<Rightarrow> nat list" where
  "utf8_of_code_point n =
     (if n < 0x80 then [n]
      else if n < 0x800 then [0xC0 + n div 64, 0x80 + n mod 64]
      else if n < 0x10000 then [0xE0 + n div 4096, 0x80 + n div 64 mod 64, 0x80 + n mod 64]
      else [0xF0 + n div 262144, 0x80 + n div 4096 mod 64, 0x80 + n div 64 mod 64, 0x80 + n mod 64])"

definition is_high_surrogate :: "code_unit \<Rightarrow> bool" where
  "is_high_surrogate c = (0xD800 \<le> c \<and> c \<le> 0xDBFF)"

definition is_low_surrogate :: "code_unit \<Rightarrow> bool" where
  "is_low_surrogate c = (0xDC00 \<le> c \<and> c \<le> 0xDFFF)"

definition lone_unit :: "code_unit \<Rightarrow> nat" where
  "lone_unit c = (if is_high_surrogate c \<or> is_low_surrogate c then 0xFFFD else unat c)"

fun utf8_encode :: "jsstring \<Rightarrow> nat list" where
  "utf8_encode [] = []"
| "utf8_encode [c] = utf8_of_code_point (lone_unit c)"
| "utf8_encode (c # d # cs) =
     (if is_high_surrogate c \<and> is_low_surrogate d
      then utf8_of_code_point (0x10000 + (unat c - 0xD800) * 0x400 + (unat d - 0xDC00)) @ utf8_encode cs
      else utf8_of_code_point (lone_unit c) @ utf8_encode (d # cs))"

definition hex_digit :: "nat \<Rightarrow> code_unit" where
  "hex_digit n = (if n < 10 then of_nat (48 + n) else of_nat (87 + n))"

definition hex32 :: "nat \<Rightarrow> jsstring" where
  "hex32 w =
     [hex_digit (w div 16 ^ 7 mod 16), hex_digit (w div 16 ^ 6 mod 16), hex_digit (w div 16 ^ 5 mod 16),
      hex_digit (w div 16 ^ 4 mod 16), hex_digit (w div 16 ^ 3 mod 16), hex_digit (w div 16 ^ 2 mod 16),
      hex_digit (w div 16 mod 16), hex_digit (w mod 16)]"

definition sha256_hex :: "jsstring \<Rightarrow> jsstring" where
  "sha256_hex s = concat (map hex32 (sha256 (utf8_encode s)))"

subsection \<open>Shard paths\<close>

record ShardConfig =
  level1Length :: nat
  level2Length :: nat
  hashLength :: nat

definition DEFAULT_SHARD_CONFIG :: ShardConfig where
  "DEFAULT_SHARD_CONFIG = \<lparr>level1Length = 2, level2Length = 2, hashLength = 8\<rparr>"

record ShardManager =
  config :: ShardConfig
  baseDir :: jsstring

text \<open>\<open>s.substring(from, to)\<close> for \<open>from \<le> to\<close>.\<close>

definition substring :: "jsstring \<Rightarrow> nat \<Rightarrow> nat \<Rightarrow> jsstring" where
  "substring s from to = take (to - from) (drop from s)"

definition hash :: "ShardManager \<Rightarrow> jsstring \<Rightarrow> jsstring" where
  "hash sm userId = substring (sha256_hex userId) 0 (hashLength (config sm))"

definition getShardPath :: "ShardManager \<Rightarrow> jsstring \<Rightarrow> jsstring" where
  "getShardPath sm userId =
     (let h = hash sm userId;
          level1 = substring h 0 (level1Length (config sm));
          level2 = substring h (level1Length (config sm))
                     (level1Length (config sm) + level2Length (config sm))
      in level1 @ ascii ''/'' @ level2 @ ascii ''/'' @ h @ ascii ''.json'')"

definition getFullPath :: "ShardManager \<Rightarrow> jsstring \<Rightarrow> jsstring" where
  "getFullPath sm userId = baseDir sm @ ascii ''/'' @ getShardPath sm userId"

definition getShardDir :: "ShardManager \<Rightarrow> jsstring \<Rightarrow> jsstring" where
  "getShardDir sm userId =
     (let h = hash sm userId;
          level1 = substring h 0 (level1Length (config sm));
          level2 = substring h (level1Length (config sm))
                     (level1Length (config sm) + level2Length (config sm))
      in baseDir sm @ ascii ''/'' @ level1 @ ascii ''/'' @ level2)"

subsection \<open>Files\<close>

text \<open>
  The content of a file is modelled by what \<open>file.json()\<close> makes of it: \<open>JsonText v\<close> is a
  text that parses to the value \<open>v\<close>, \<open>NotJson t\<close> is a text \<open>t\<close> that does not parse; the
  empty file is \<open>NotJson []\<close>. The store is an association list from paths to contents; a
  path is the string the program builds, and two paths are the same file when they are the
  same string.
\<close>

datatype file_content = JsonText jsval | NotJson jsstring

type_synonym file_system = "(jsstring \<times> file_content) list"

text \<open>
  An operation of the runtime on a file may fail for reasons outside the program (permissions,
  a device error). \<open>io op path\<close> is the fault, if any, that the operation meets at this call.
\<close>

datatype io_op = OpExists | OpRead | OpWrite | OpScan

datatype io_error = NotFound | SyntaxError | TypeError | IOFault jsstring

type_synonym io_faults = "io_op \<Rightarrow> jsstring \<Rightarrow> io_error option"

text \<open>\<open>await Bun.file(path).exists()\<close>\<close>

definition bun_exists :: "io_faults \<Rightarrow> file_system \<Rightarrow> jsstring \<Rightarrow> io_error + bool" where
  "bun_exists io fs path =
     (case io OpExists path of Some e \<Rightarrow> Inl e | None \<Rightarrow> Inr (map_of fs path \<noteq> None))"

text \<open>\<open>await Bun.file(path).json()\<close>\<close>

definition bun_json :: "io_faults \<Rightarrow> file_system \<Rightarrow> jsstring \<Rightarrow> io_error + jsval" where
  "bun_json io fs path =
     (case io OpRead path of
        Some e \<Rightarrow> Inl e
      | None \<Rightarrow>
         (case map_of fs path of
            None \<Rightarrow> Inl NotFound
          | Some (NotJson t) \<Rightarrow> Inl SyntaxError
          | Some (JsonText v) \<Rightarrow> Inr v))"

text \<open>\<open>await Bun.write(path, data)\<close>: creates the file or replaces its content.\<close>

definition bun_write ::
  "io_faults \<Rightarrow> file_system \<Rightarrow> jsstring \<Rightarrow> file_content \<Rightarrow> io_error + file_system" where
  "bun_write io fs path data =
     (case io OpWrite path of Some e \<Rightarrow> Inl e | None \<Rightarrow> Inr (AList.update path data fs))"

subsection \<open>JSON\<close>

text \<open>
  \<open>JSON.parse(JSON.stringify(v))\<close>: a number that is not finite is written as \<open>null\<close>.
  Properties whose value is \<open>undefined\<close> are left out; in the model they are absent from
  the object in the first place.
\<close>

primrec json_value :: "jsval \<Rightarrow> jsval" where
  "json_value JNull = JNull"
| "json_value (JBool b) = JBool b"
| "json_value (JNum n) = (case n of Fin r \<Rightarrow> JNum (Fin r) | _ \<Rightarrow> JNull)"
| "json_value (JStr s) = JStr s"
| "json_value (JArr vs) = JArr (map json_value vs)"
| "json_value (JObj kvs) = JObj (map (map_prod id json_value) kvs)"

definition JSON_stringify :: "jsval \<Rightarrow> file_content" where
  "JSON_stringify v = JsonText (json_value v)"

text \<open>An optional property: present when the field is defined.\<close>

definition opt_prop :: "string \<Rightarrow> ('a \<Rightarrow> jsval) \<Rightarrow> 'a option \<Rightarrow> (jsstring \<times> jsval) list" where
  "opt_prop key to_val field = (case field of None \<Rightarrow> [] | Some x \<Rightarrow> [(ascii key, to_val x)])"

text \<open>The objects of the two record types, as JavaScript values.\<close>

definition metadata_value :: "VerificationMetadata \<Rightarrow> jsval" where
  "metadata_value md =
     JObj (opt_prop ''bilibiliFollowers'' JNum (bilibiliFollowers md) @
           opt_prop ''youtubeSubscribers'' JNum (youtubeSubscribers md) @
           opt_prop ''avatarSimilarity'' JNum (avatarSimilarity md) @
           opt_prop ''usernameSimilarity'' JNum (usernameSimilarity md) @
           opt_prop ''bioMatch'' JBool (bioMatch md) @
           opt_prop ''youtubeVerified'' JBool (youtubeVerified md) @
           opt_prop ''matchingVideos'' JNum (matchingVideos md) @
           opt_prop ''issueNumber'' JNum (issueNumber md))"

definition mapping_value :: "UserMapping \<Rightarrow> jsval" where
  "mapping_value m =
     JObj ([(ascii ''bilibiliUid'', JStr (bilibiliUid m)),
            (ascii ''bilibiliUsername'', JStr (bilibiliUsername m))] @
           opt_prop ''bilibiliAvatar'' JStr (bilibiliAvatar m) @
           [(ascii ''youtubeChannelId'', JStr (youtubeChannelId m)),
            (ascii ''youtubeChannelName'', JStr (youtubeChannelName m))] @
           opt_prop ''youtubeAvatar'' JStr (youtubeAvatar m) @
           [(ascii ''verificationLevel'', JNum (Fin (of_nat (verificationLevel m)))),
            (ascii ''verifiedAt'', JStr (verifiedAt m)),
            (ascii ''verifiedBy'', JStr (case verifiedBy m of Auto \<Rightarrow> ascii ''auto'' | Manual \<Rightarrow> ascii ''manual''))] @
           opt_prop ''metadata'' metadata_value (um_metadata m))"

text \<open>\<open>value.key\<close> on a parsed JSON value that is not \<open>null\<close>; \<open>None\<close> is \<open>undefined\<close>.\<close>

fun get_property :: "jsval \<Rightarrow> jsstring \<Rightarrow> jsval option" where
  "get_property (JObj kvs) key = map_of kvs key"
| "get_property _ key = None"

subsection \<open>ShardManager\<close>

text \<open>
  Every method takes the faults of the call and the store; a method that writes returns the
  new store. \<open>Inl\<close> is a thrown error. \<open>readMapping\<close> returns \<open>JNull\<close> for \<open>null\<close>.
\<close>

definition readMapping :: "ShardManager \<Rightarrow> io_faults \<Rightarrow> file_system \<Rightarrow> jsstring \<Rightarrow> io_error + jsval" where
  "readMapping sm io fs userId =
     (let filePath = getFullPath sm userId;
          attempt = (case bun_exists io fs filePath of
                       Inl e \<Rightarrow> Inl e
                     | Inr present \<Rightarrow> if \<not> present then Inr JNull else bun_json io fs filePath)
      in case attempt of
           Inl error \<Rightarrow> Inr JNull
         | Inr data \<Rightarrow> Inr data)"

definition writeMapping ::
  "ShardManager \<Rightarrow> io_faults \<Rightarrow> file_system \<Rightarrow> jsstring \<Rightarrow> UserMapping \<Rightarrow> io_error + file_system" where
  "writeMapping sm io fs userId mapping =
     (let filePath = getFullPath sm userId;
          dirPath = getShardDir sm userId
      in case bun_write io fs (dirPath @ ascii ''/.gitkeep'') (NotJson []) of
           Inl error \<Rightarrow> Inl error
         | Inr fs1 \<Rightarrow>
            (case bun_write io fs1 filePath (JSON_stringify (mapping_value mapping)) of
               Inl error \<Rightarrow> Inl error
             | Inr fs2 \<Rightarrow> Inr fs2))"

definition deleteMapping ::
  "ShardManager \<Rightarrow> io_faults \<Rightarrow> file_system \<Rightarrow> jsstring \<Rightarrow> io_error + file_system" where
  "deleteMapping sm io fs userId =
     (let filePath = getFullPath sm userId
      in case bun_write io fs filePath (NotJson []) of
           Inl error \<Rightarrow> Inl error
         | Inr fs1 \<Rightarrow> Inr fs1)"

definition hasMapping :: "ShardManager \<Rightarrow> io_faults \<Rightarrow> file_system \<Rightarrow> jsstring \<Rightarrow> io_error + bool" where
  "hasMapping sm io fs userId = bun_exists io fs (getFullPath sm userId)"











section \<open>Notions used to state the properties of the shard manager\<close>

text \<open>
  A mapping is representable in JSON when every number of its metadata is finite.
\<close>

definition is_finite_opt :: "jsnum option \<Rightarrow> bool" where
  "is_finite_opt n = (case n of Some PosInf \<Rightarrow> False | Some NegInf \<Rightarrow> False | Some NaN \<Rightarrow> False | _ \<Rightarrow> True)"

definition finite_metadata :: "VerificationMetadata \<Rightarrow> bool" where
  "finite_metadata md =
     (is_finite_opt (bilibiliFollowers md) \<and> is_finite_opt (youtubeSubscribers md) \<and>
      is_finite_opt (avatarSimilarity md) \<and> is_finite_opt (usernameSimilarity md) \<and>
      is_finite_opt (matchingVideos md) \<and> is_finite_opt (issueNumber md))"

definition finite_mapping :: "UserMapping \<Rightarrow> bool" where
  "finite_mapping m = (case um_metadata m of None \<Rightarrow> True | Some md \<Rightarrow> finite_metadata md)"

subsection \<open>Concrete inputs for the examples\<close>

definition default_manager :: ShardManager where
  "default_manager = \<lparr>config = DEFAULT_SHARD_CONFIG, baseDir = ascii ''./data/b2y''\<rparr>"

definition no_faults :: io_faults where
  "no_faults = (\<lambda>op path. None)"

definition read_faults :: io_faults where
  "read_faults = (\<lambda>op path. if op = OpRead then Some (IOFault (ascii ''EIO'')) else None)"

definition example_mapping :: "jsstring \<Rightarrow> jsstring \<Rightarrow> VerificationMetadata \<Rightarrow> UserMapping" where
  "example_mapping uid cid md =
     \<lparr>bilibiliUid = uid, bilibiliUsername = ascii ''User'', bilibiliAvatar = Some (ascii ''avatar.jpg''),
      youtubeChannelId = cid, youtubeChannelName = ascii ''Channel'', youtubeAvatar = Some (ascii ''yt.jpg''),
      verificationLevel = 1, verifiedAt = ascii ''2024-01-01T00:00:00.000Z'', verifiedBy = Auto,
      um_metadata = Some md\<rparr>"

text \<open>The store after one write into the empty store without faults.\<close>

definition store_after_write :: "ShardManager \<Rightarrow> jsstring \<Rightarrow> UserMapping \<Rightarrow> file_system" where
  "store_after_write sm userId m =
     AList.update (getFullPath sm userId) (JSON_stringify (mapping_value m))
       (AList.update (getShardDir sm userId @ ascii ''/.gitkeep'') (NotJson []) [])"

definition nan_metadata :: VerificationMetadata where
  "nan_metadata = empty_metadata\<lparr>usernameSimilarity := Some NaN\<rparr>"







section \<open>The rate limiter (class RateLimiter of src/api/bilibili.ts)\<close>

text \<open>
  The program runs on one thread: code runs until it returns or reaches an \<open>await\<close>, and
  a suspended function is resumed by an event. The model has one function for each stretch
  of code between two suspension points, and a step function that applies an input event:
  \<^item> \<open>Execute\<close>: some caller calls \<open>execute(fn)\<close>; the task is named by the number of
    earlier calls;
  \<^item> \<open>TaskSettles t out\<close>: the promise returned by the function of task \<open>t\<close>, which
    \<open>process\<close> awaits, settles with the outcome \<open>out\<close>;
  \<^item> \<open>TimerFires\<close>: the timer of a \<open>setTimeout(resolve, delayMs)\<close> elapses.

  Besides the fields \<open>queue\<close>, \<open>processing\<close> and \<open>delayMs\<close> of the class, the state holds
  the invocations of \<open>process\<close> that are suspended: \<open>awaiting\<close> lists the tasks whose function
  has been called and is awaited, \<open>sleeping\<close> counts the pending timers. \<open>submissions\<close> and
  \<open>history\<close> record what happened and have no influence on the behaviour.
\<close>

datatype outcome = Fulfilled jsval | Rejected js_error

datatype rl_event =
    Submitted nat
  | Started nat
  | Completed nat outcome
  | PromiseSettled nat outcome
  | DelayElapsed

record RateLimiter =
  queue :: "nat list"
  processing :: bool
  delayMs :: jsnum
  awaiting :: "nat list"
  sleeping :: nat
  submissions :: nat
  history :: "rl_event list"

text \<open>\<open>new RateLimiter(delayMs)\<close>\<close>

definition new_limiter :: "jsnum \<Rightarrow> RateLimiter" where
  "new_limiter d =
     \<lparr>queue = [], processing = False, delayMs = d, awaiting = [], sleeping = 0,
      submissions = 0, history = []\<rparr>"

text \<open>
  The loop of \<open>process\<close> from its condition to the next suspension: with an empty queue the
  loop ends and \<open>processing\<close> is reset; otherwise the first function is taken from the queue
  and called, and \<open>process\<close> awaits it.
\<close>

definition start_next :: "RateLimiter \<Rightarrow> RateLimiter" where
  "start_next rl =
     (case queue rl of
        [] \<Rightarrow> rl\<lparr>processing := False\<rparr>
      | t # rest \<Rightarrow> rl\<lparr>queue := rest, awaiting := awaiting rl @ [t],
                          history := history rl @ [Started t]\<rparr>)"

definition process :: "RateLimiter \<Rightarrow> RateLimiter" where
  "process rl = start_next (rl\<lparr>processing := True\<rparr>)"

text \<open>\<open>execute(fn)\<close>: the executor of the new promise runs at once.\<close>

definition execute :: "RateLimiter \<Rightarrow> RateLimiter" where
  "execute rl =
     (let t = submissions rl;
          rl1 = rl\<lparr>queue := queue rl @ [t], submissions := t + 1,
                    history := history rl @ [Submitted t]\<rparr>
      in if \<not> processing rl1 then process rl1 else rl1)"

text \<open>
  The awaited function of task \<open>t\<close> settles: the queued wrapper resolves or rejects the
  promise that \<open>execute\<close> returned with the same outcome, and \<open>process\<close> goes on to await
  the timer.
\<close>

definition task_settles :: "nat \<Rightarrow> outcome \<Rightarrow> RateLimiter \<Rightarrow> RateLimiter option" where
  "task_settles t out rl =
     (if t \<in> set (awaiting rl)
      then Some (rl\<lparr>awaiting := remove1 t (awaiting rl), sleeping := sleeping rl + 1,
                    history := history rl @ [Completed t out, PromiseSettled t out]\<rparr>)
      else None)"

text \<open>A pending timer elapses and the loop of \<open>process\<close> goes into its next round.\<close>

definition timer_fires :: "RateLimiter \<Rightarrow> RateLimiter option" where
  "timer_fires rl =
     (if 0 < sleeping rl
      then Some (start_next (rl\<lparr>sleeping := sleeping rl - 1,
                                history := history rl @ [DelayElapsed]\<rparr>))
      else None)"

datatype rl_input = Execute | TaskSettles nat outcome | TimerFires

fun rl_step :: "RateLimiter \<Rightarrow> rl_input \<Rightarrow> RateLimiter option" where
  "rl_step rl Execute = Some (execute rl)"
| "rl_step rl (TaskSettles t out) = task_settles t out rl"
| "rl_step rl TimerFires = timer_fires rl"

text \<open>A run; \<open>None\<close> when an input names an event that cannot happen in the state.\<close>

fun rl_run :: "RateLimiter \<Rightarrow> rl_input list \<Rightarrow> RateLimiter option" where
  "rl_run rl [] = Some rl"
| "rl_run rl (i # inputs) = (case rl_step rl i of None \<Rightarrow> None | Some rl1 \<Rightarrow> rl_run rl1 inputs)"

subsection \<open>Notions used to state the properties of the rate limiter\<close>

definition submitted_tasks :: "rl_event list \<Rightarrow> nat list" where
  "submitted_tasks h = concat (map (\<lambda>e. case e of Submitted t \<Rightarrow> [t] | _ \<Rightarrow> []) h)"

definition started_tasks :: "rl_event list \<Rightarrow> nat list" where
  "started_tasks h = concat (map (\<lambda>e. case e of Started t \<Rightarrow> [t] | _ \<Rightarrow> []) h)"

definition completed_tasks :: "rl_event list \<Rightarrow> nat list" where
  "completed_tasks h = concat (map (\<lambda>e. case e of Completed t out \<Rightarrow> [t] | _ \<Rightarrow> []) h)"

text \<open>In \<open>h\<close>, task \<open>u\<close> has completed and a delay has elapsed since.\<close>

definition delayed :: "nat \<Rightarrow> rl_event list \<Rightarrow> bool" where
  "delayed u h = (\<exists>out p1 p2. h = p1 @ Completed u out # p2 \<and> DelayElapsed \<in> set p2)"

text \<open>Whenever a task starts, every task submitted before it has completed and a delay has elapsed.\<close>

definition starts_in_order :: "rl_event list \<Rightarrow> bool" where
  "starts_in_order h = (\<forall>pre t post. h = pre @ Started t # post \<longrightarrow> (\<forall>u<t. delayed u pre))"

definition settled_with_own_outcome :: "rl_event list \<Rightarrow> bool" where
  "settled_with_own_outcome h =
     (\<forall>t out. PromiseSettled t out \<in> set h \<longleftrightarrow> Completed t out \<in> set h)"

definition rl_inv :: "RateLimiter \<Rightarrow> bool" where
  "rl_inv rl =
     (\<exists>k c. submitted_tasks (history rl) = [0..<submissions rl] \<and>
            started_tasks (history rl) = [0..<k] \<and>
            completed_tasks (history rl) = [0..<c] \<and>
            queue rl = [k..<submissions rl] \<and>
            awaiting rl = [c..<k] \<and>
            k \<le> submissions rl \<and> c \<le> k \<and> k \<le> Suc c \<and>
            sleeping rl \<le> 1 \<and>
            (sleeping rl = 1 \<longrightarrow> c = k) \<and>
            (processing rl \<longleftrightarrow> c < k \<or> sleeping rl = 1) \<and>
            (\<not> processing rl \<longrightarrow> k = submissions rl) \<and>
            starts_in_order (history rl) \<and>
            settled_with_own_outcome (history rl) \<and>
            (\<forall>u<c. \<exists>out. Completed u out \<in> set (history rl)) \<and>
            (\<not> processing rl \<longrightarrow> (\<forall>u<k. delayed u (history rl))))"

definition example_inputs :: "rl_input list" where
  "example_inputs =
     [Execute, Execute, TaskSettles 0 (Fulfilled JNull), TimerFires,
      TaskSettles 1 (Rejected (Thrown (ascii ''Error: 404''))), TimerFires]"

section \<open>Properties of stringSimilarity\<close>

text \<open>
  A loop \<open>for (k = lo; k < hi; k++)\<close> keeps an invariant that holds before it and is
  preserved by every iteration.
\<close>

lemma fold_upt_invariant:
  assumes "lo \<le> hi" and "P lo s"
    and "\<And>k s'. lo \<le> k \<Longrightarrow> k < hi \<Longrightarrow> P k s' \<Longrightarrow> P (Suc k) (f k s')"
  shows "P hi (fold f [lo..<hi] s)"
  using assms
proof (induction hi)
  case 0
  then show ?case by simp
next
  case (Suc hi)
  show ?case
  proof (cases "lo = Suc hi")
    case True
    with Suc.prems(2) show ?thesis by simp
  next
    case False
    with Suc.prems(1) have le: "lo \<le> hi" by simp
    have "P hi (fold f [lo..<hi] s)"
      using le Suc.prems(2) Suc.prems(3) by (intro Suc.IH) auto
    then have "P (Suc hi) (f hi (fold f [lo..<hi] s))"
      using le by (intro Suc.prems(3)) auto
    with le show ?thesis by simp
  qed
qed

lemma matrix_get_update:
  "matrix i = Some row \<Longrightarrow>
   matrix_get (matrix(i \<mapsto> row(j \<mapsto> v))) i' j' =
     (if i' = i \<and> j' = j then Some v else matrix_get matrix i' j')"
  by (simp add: matrix_get_def)

lemma matrix_get_new_row:
  "matrix_get (matrix(i \<mapsto> [0 \<mapsto> v])) i' j' =
     (if i' = i then (if j' = 0 then Some v else None) else matrix_get matrix i' j')"
  by (simp add: matrix_get_def)

lemma matrix_get_row: "matrix_get matrix i j = Some v \<Longrightarrow> \<exists>row. matrix i = Some row"
  by (simp add: matrix_get_def split: option.splits)

lemma init_rows_cells:
  "i \<le> len1 \<Longrightarrow> matrix_get (init_rows len1) i 0 = Some i"
proof -
  let ?P = "\<lambda>k matrix. \<forall>i<k. matrix_get matrix i 0 = Some i"
  have "?P (Suc len1) (fold (\<lambda>i matrix. matrix(i \<mapsto> [0 \<mapsto> i])) [0..<Suc len1] Map.empty)"
    by (rule fold_upt_invariant [where P = ?P]) (simp_all add: matrix_get_new_row)
  then show "i \<le> len1 \<Longrightarrow> ?thesis" by (simp add: init_rows_def)
qed

lemma init_first_row_cells:
  assumes "\<forall>i\<le>len1. matrix_get matrix0 i 0 = Some i"
  shows "(\<forall>i\<le>len1. matrix_get (init_first_row len2 matrix0) i 0 = Some i) \<and>
         (\<forall>j\<le>len2. matrix_get (init_first_row len2 matrix0) 0 j = Some j)"
proof -
  let ?f = "\<lambda>j matrix. case matrix 0 of None \<Rightarrow> matrix | Some row0 \<Rightarrow> matrix(0 \<mapsto> row0(j \<mapsto> j))"
  let ?P = "\<lambda>k matrix. (\<forall>i\<le>len1. matrix_get matrix i 0 = Some i) \<and>
                          (\<forall>j<k. matrix_get matrix 0 j = Some j)"
  have step: "?P (Suc k) (?f k matrix)" if "?P k matrix" for k matrix
  proof -
    from that have "matrix_get matrix 0 0 = Some 0" by simp
    then obtain row0 where r: "matrix 0 = Some row0" using matrix_get_row by blast
    then show ?thesis using that by (auto simp: matrix_get_update less_Suc_eq)
  qed
  have "?P (Suc len2) (fold ?f [0..<Suc len2] matrix0)"
  proof (rule fold_upt_invariant [where P = ?P])
    show "?P 0 matrix0" using assms by simp
  qed (use step in simp_all)
  then show ?thesis by (simp add: init_first_row_def less_Suc_eq_le)
qed


lemma fill_cell_get:
  assumes "0 < i" and "0 < j"
    and up: "matrix_get matrix (i - 1) j = Some (lev s t (i - 1) j)"
    and left: "matrix_get matrix i (j - 1) = Some (lev s t i (j - 1))"
    and diag: "matrix_get matrix (i - 1) (j - 1) = Some (lev s t (i - 1) (j - 1))"
  shows "matrix_get (fill_cell s t i j matrix) i' j' =
           (if i' = i \<and> j' = j then Some (lev s t i j) else matrix_get matrix i' j')"
proof -
  obtain cr where cr: "matrix i = Some cr" using left matrix_get_row by blast
  obtain pr where pr: "matrix (i - 1) = Some pr" using up matrix_get_row by blast
  obtain i0 j0 where ij: "i = Suc i0" "j = Suc j0"
    using assms(1,2) by (metis Suc_pred)
  have "fill_cell s t i j matrix = matrix(i \<mapsto> cr(j \<mapsto> lev s t i j))"
    using cr pr up left diag unfolding fill_cell_def ij by (simp add: Let_def)
  then show ?thesis using cr by (simp add: matrix_get_update)
qed

lemma fill_row_cells:
  assumes i: "0 < i" "i \<le> len1"
    and rows: "\<forall>i' j'. i' < i \<and> j' \<le> len2 \<longrightarrow> matrix_get matrix i' j' = Some (lev s t i' j')"
    and col0: "\<forall>i'. i \<le> i' \<and> i' \<le> len1 \<longrightarrow> matrix_get matrix i' 0 = Some i'"
  shows "(\<forall>i' j'. i' < Suc i \<and> j' \<le> len2 \<longrightarrow>
            matrix_get (fold (fill_cell s t i) [1..<Suc len2] matrix) i' j' = Some (lev s t i' j')) \<and>
         (\<forall>i'. Suc i \<le> i' \<and> i' \<le> len1 \<longrightarrow>
            matrix_get (fold (fill_cell s t i) [1..<Suc len2] matrix) i' 0 = Some i')"
proof -
  let ?Q = "\<lambda>j m. (\<forall>i' j'. i' < i \<and> j' \<le> len2 \<longrightarrow> matrix_get m i' j' = Some (lev s t i' j')) \<and>
                   (\<forall>j'<j. matrix_get m i j' = Some (lev s t i j')) \<and>
                   (\<forall>i'. i < i' \<and> i' \<le> len1 \<longrightarrow> matrix_get m i' 0 = Some i')"
  obtain i0 where i0: "i = Suc i0" using i(1) by (metis Suc_pred)
  have start: "?Q 1 matrix"
    using rows col0 i by (simp add: i0)
  have step: "?Q (Suc k) (fill_cell s t i k m)" if k: "1 \<le> k" "k < Suc len2" and Q: "?Q k m" for k m
  proof -
    have up: "matrix_get m (i - 1) k = Some (lev s t (i - 1) k)" using Q k i by simp
    have left: "matrix_get m i (k - 1) = Some (lev s t i (k - 1))" using Q k by simp
    have diag: "matrix_get m (i - 1) (k - 1) = Some (lev s t (i - 1) (k - 1))" using Q k i by simp
    have get: "matrix_get (fill_cell s t i k m) i' j' =
                 (if i' = i \<and> j' = k then Some (lev s t i k) else matrix_get m i' j')" for i' j'
      using fill_cell_get [OF _ _ up left diag] i(1) k(1) by simp
    show ?thesis
      using Q k by (auto simp: get less_Suc_eq)
  qed
  define m' where "m' = fold (fill_cell s t i) [1..<Suc len2] matrix"
  have Q: "?Q (Suc len2) m'"
    unfolding m'_def
    by (rule fold_upt_invariant [where P = ?Q]) (use start step in simp_all)
  have A: "matrix_get m' i' j' = Some (lev s t i' j')" if "i' < Suc i" "j' \<le> len2" for i' j'
  proof (cases "i' = i")
    case True
    moreover have "j' < Suc len2" using that by simp
    ultimately show ?thesis using Q by blast
  next
    case False
    then have "i' < i" using that by simp
    then show ?thesis using Q that by blast
  qed
  have B: "matrix_get m' i' 0 = Some i'" if "Suc i \<le> i'" "i' \<le> len1" for i'
  proof -
    have "i < i'" using that by simp
    then show ?thesis using Q that by blast
  qed
  from A B have "(\<forall>i' j'. i' < Suc i \<and> j' \<le> len2 \<longrightarrow> matrix_get m' i' j' = Some (lev s t i' j')) \<and>
             (\<forall>i'. Suc i \<le> i' \<and> i' \<le> len1 \<longrightarrow> matrix_get m' i' 0 = Some i')"
    by blast
  then show ?thesis unfolding m'_def .
qed

lemma fill_matrix_cells:
  assumes row0: "\<forall>j\<le>length t. matrix_get matrix0 0 j = Some j"
    and col0: "\<forall>i\<le>length s. matrix_get matrix0 i 0 = Some i"
  shows "i \<le> length s \<Longrightarrow> j \<le> length t \<Longrightarrow>
         matrix_get (fill_matrix s t matrix0) i j = Some (lev s t i j)"
proof -
  let ?R = "\<lambda>i m. (\<forall>i' j'. i' < i \<and> j' \<le> length t \<longrightarrow> matrix_get m i' j' = Some (lev s t i' j')) \<and>
                   (\<forall>i'. i \<le> i' \<and> i' \<le> length s \<longrightarrow> matrix_get m i' 0 = Some i')"
  let ?body = "\<lambda>i matrix. fold (fill_cell s t i) [1..<Suc (length t)] matrix"
  have start: "?R 1 matrix0" using row0 col0 by simp
  have step: "?R (Suc k) (?body k m)" if "1 \<le> k" "k < Suc (length s)" "?R k m" for k m
    using fill_row_cells [of k "length s" "length t" m s t] that by simp
  have "?R (Suc (length s)) (fold ?body [1..<Suc (length s)] matrix0)"
    by (rule fold_upt_invariant [where P = ?R]) (use start step in simp_all)
  then show "i \<le> length s \<Longrightarrow> j \<le> length t \<Longrightarrow> ?thesis"
    by (simp add: fill_matrix_def less_Suc_eq_le)
qed

text \<open>
  The three loops of \<open>stringSimilarity\<close> fill every cell of the matrix, never meet an
  undefined cell, and compute the edit-distance recurrence.
\<close>

lemma levenshtein_matrix_lev:
  "i \<le> length s \<Longrightarrow> j \<le> length t \<Longrightarrow>
   matrix_get (levenshtein_matrix s t) i j = Some (lev s t i j)"
  unfolding levenshtein_matrix_def
  using init_first_row_cells [of "length s" "init_rows (length s)" "length t"]
  by (intro fill_matrix_cells) (simp_all add: init_rows_cells)

lemma stringSimilarity_lev:
  "stringSimilarity s t =
     js_sub (Fin 1) (js_div (Fin (of_nat (lev s t (length s) (length t))))
                            (Fin (of_nat (max (length s) (length t)))))"
  unfolding stringSimilarity_def Let_def
  by (simp only: levenshtein_matrix_lev order_refl option.case)

lemma lev_same: "lev s s n n = 0"
  by (induction n) simp_all

lemma lev_empty_right: "lev s [] n 0 = n"
  by (cases n) simp_all

lemma stringSimilarity_same_nonempty: "s \<noteq> [] \<Longrightarrow> stringSimilarity s s = Fin 1"
  by (simp add: stringSimilarity_lev lev_same js_sub_def)

lemma stringSimilarity_one_empty: "s \<noteq> [] \<Longrightarrow> stringSimilarity s [] = Fin 0"
  by (simp add: stringSimilarity_lev lev_empty_right js_sub_def)

text \<open>
  C4. The claim: for every string \<open>s\<close>, \<open>similarity(s, s) = 1.0\<close>, in particular
  \<open>similarity("", "") = 1.0\<close>, and \<open>similarity(s, "") = 0\<close> for every non-empty
  \<open>s\<close>. The function has no guard for empty input: with both strings empty the distance
  and the maximal length are both 0, and \<open>1 - 0 / 0\<close> is \<open>NaN\<close>, not 1. For
  non-empty strings the claim holds (\<open>stringSimilarity_same_nonempty\<close>,
  \<open>stringSimilarity_one_empty\<close>).
\<close>

theorem stringSimilarity_empty_empty:
  "stringSimilarity [] [] = NaN \<and> stringSimilarity [] [] \<noteq> Fin 1"
  by (simp add: stringSimilarity_lev js_sub_def)

section \<open>Properties of the verifier\<close>

text \<open>The two loops over the videos count the source videos with a matching target video.\<close>

lemma has_matching_title_iff:
  "has_matching_title rt b ys = list_ex (titles_similar rt b) ys"
  by (induction ys) (simp_all add: titles_similar_def Let_def)

lemma count_matching_videos_eq:
  "count_matching_videos rt bs ys n = n + matched_sources rt bs ys"
  by (induction bs arbitrary: n) (simp_all add: matched_sources_def has_matching_title_iff)

lemma score_level3_confidence:
  "vr_confidence (score_level3 rt u c sim md bs ys) =
     Fin (name_bonus sim + video_bonus (matched_sources rt bs ys) + ratio_bonus (followerRatioOf u c))"
  by (simp add: score_level3_def Let_def count_matching_videos_eq name_bonus_def video_bonus_def
      ratio_bonus_def split: prod.splits)

lemma score_level3_outcome:
  "vr_success (score_level3 rt u c sim md bs ys) =
     (7 / 10 \<le> name_bonus sim + video_bonus (matched_sources rt bs ys) + ratio_bonus (followerRatioOf u c))"
  "vr_level (score_level3 rt u c sim md bs ys) =
     (if 7 / 10 \<le> name_bonus sim + video_bonus (matched_sources rt bs ys) + ratio_bonus (followerRatioOf u c)
      then 3 else 4)"
  by (simp_all add: score_level3_def Let_def count_matching_videos_eq name_bonus_def video_bonus_def
      ratio_bonus_def split: prod.splits)

lemma verify_reaches_level3:
  assumes "getUserInfo apis biliUid = Inr biliUser"
    and "getChannel apis ytChannelId = Inr ytChannel"
    and "\<not> level1_succeeds rt biliUser ytChannel"
    and "\<not> checkBioMatch rt (bu_sign biliUser) (yc_description ytChannel) biliUid ytChannelId"
    and "getUserVideos apis biliUid 1 10 = Inr biliVideos"
    and "getChannelVideos apis ytChannelId 10 = Inr ytVideos"
  shows "\<exists>md. verify_try rt apis biliUid ytChannelId =
           Inr (score_level3 rt biliUser ytChannel (nameSimilarityOf rt biliUser ytChannel) md
                  biliVideos ytVideos)"
  using assms by (auto simp add: verify_try_def level1_succeeds_def Let_def)

subsection \<open>Evaluation of the examples\<close>

lemma normalize_ab: "normalizeUsername example_runtime (ascii ''ab'') = ascii ''ab''"
  by (simp add: normalizeUsername_def example_runtime_def ascii_toLowerCase_def ascii_def
      strip_separators_def separator_units_def token_official_def token_pindao_def token_channel_def
      ci_unit_eq_def)

text \<open>The example of the test suite: separators and the generic tokens are removed.\<close>

lemma normalize_spec1:
  "normalizeUsername example_runtime (ascii ''Test_User-Official Channel'') = ascii ''testuser''"
  by (simp add: normalizeUsername_def example_runtime_def ascii_toLowerCase_def ascii_def
      strip_separators_def separator_units_def token_official_def token_pindao_def token_channel_def
      ci_unit_eq_def)

lemma ascii_Cons_nonempty: "ascii (c # cs) \<noteq> []"
  by (simp add: ascii_def)

lemma example_name_similarity:
  "nameSimilarityOf example_runtime (example_user uid (ascii ''ab'') sign follower)
     (example_channel cid (ascii ''ab'') description subscribers verified) = Fin 1"
  by (simp add: nameSimilarityOf_def example_user_def example_channel_def normalize_ab
      stringSimilarity_same_nonempty ascii_Cons_nonempty)

lemma example_no_bio_match:
  "\<not> checkBioMatch example_runtime [] [] (ascii ''1'') (ascii ''UCx'')"
  by (simp add: checkBioMatch_def example_runtime_def ascii_toLowerCase_def ascii_def)

lemma example_titles_similar:
  "titles_similar example_runtime (example_bili_video (ascii ''x'')) (example_yt_video (ascii ''x''))"
  by (simp add: titles_similar_def example_bili_video_def example_yt_video_def example_runtime_def
      ascii_toLowerCase_def stringSimilarity_same_nonempty ascii_def)

subsection \<open>Failing collaborators\<close>

text \<open>
  C1. \<open>verify\<close> never throws: the model is a total function whose \<open>try\<close> block returns
  either a result or a thrown value, and the \<open>catch\<close> block turns every thrown value into
  a result. Whenever one of the fetches that \<open>verify\<close> performs raises \<open>e\<close> (the profile
  fetches always, the video fetches when neither level 1 nor level 2 succeeded), the result
  has \<open>success = false\<close>, \<open>level = 4\<close>, \<open>confidence = 0\<close> and the single reason
  \<open>Verification failed: e\<close>.
\<close>

theorem verify_fetch_failure:
  assumes "getUserInfo apis biliUid = Inl e \<or>
           (getUserInfo apis biliUid = Inr biliUser \<and> getChannel apis ytChannelId = Inl e) \<or>
           (getUserInfo apis biliUid = Inr biliUser \<and> getChannel apis ytChannelId = Inr ytChannel \<and>
            \<not> level1_succeeds rt biliUser ytChannel \<and>
            \<not> checkBioMatch rt (bu_sign biliUser) (yc_description ytChannel) biliUid ytChannelId \<and>
            (getUserVideos apis biliUid 1 10 = Inl e \<or>
             (getUserVideos apis biliUid 1 10 = Inr biliVideos \<and>
              getChannelVideos apis ytChannelId 10 = Inl e)))"
  shows "verify rt apis biliUid ytChannelId = verification_failed e \<and>
         vr_success (verification_failed e) = False \<and>
         vr_level (verification_failed e) = 4 \<and>
         vr_confidence (verification_failed e) = Fin 0 \<and>
         vr_reasons (verification_failed e) = [ascii ''Verification failed: '' @ error_text e]"
proof -
  have "verify_try rt apis biliUid ytChannelId = Inl e"
    using assms by (auto simp add: verify_try_def level1_succeeds_def Let_def)
  then show ?thesis
    by (simp add: verify_def verification_failed_def)
qed

text \<open>The video fetch of the target platform fails.\<close>

theorem verify_fetch_failure_witness:
  "getUserInfo (example_apis (Inr (example_user (ascii ''1'') (ascii ''ab'') [] (Fin 100)))
                  (Inr (example_channel (ascii ''UCx'') (ascii ''ab'') [] (Some (Fin 100)) None))
                  (Inr []) (Inl (Thrown (ascii ''Error: quota'')))) (ascii ''1'')
     = Inr (example_user (ascii ''1'') (ascii ''ab'') [] (Fin 100)) \<and>
   verify example_runtime
     (example_apis (Inr (example_user (ascii ''1'') (ascii ''ab'') [] (Fin 100)))
        (Inr (example_channel (ascii ''UCx'') (ascii ''ab'') [] (Some (Fin 100)) None))
        (Inr []) (Inl (Thrown (ascii ''Error: quota''))))
     (ascii ''1'') (ascii ''UCx'')
     = verification_failed (Thrown (ascii ''Error: quota''))"
proof -
  let ?u = "example_user (ascii ''1'') (ascii ''ab'') [] (Fin 100)"
  let ?c = "example_channel (ascii ''UCx'') (ascii ''ab'') [] (Some (Fin 100)) None"
  let ?apis = "example_apis (Inr ?u) (Inr ?c) (Inr []) (Inl (Thrown (ascii ''Error: quota'')))"
  have h1: "getUserInfo ?apis (ascii ''1'') = Inr ?u" by (simp add: example_apis_def)
  have h2: "getChannel ?apis (ascii ''UCx'') = Inr ?c" by (simp add: example_apis_def)
  have h3: "\<not> level1_succeeds example_runtime ?u ?c"
    by (simp add: level1_succeeds_def example_channel_def)
  have h4: "\<not> checkBioMatch example_runtime (bu_sign ?u) (yc_description ?c) (ascii ''1'') (ascii ''UCx'')"
    using example_no_bio_match by (simp add: example_user_def example_channel_def)
  have h5: "getUserVideos ?apis (ascii ''1'') 1 10 = Inr []" by (simp add: example_apis_def)
  have h6: "getChannelVideos ?apis (ascii ''UCx'') 10 = Inl (Thrown (ascii ''Error: quota''))"
    by (simp add: example_apis_def)
  from verify_fetch_failure [of ?apis "ascii ''1''" "Thrown (ascii ''Error: quota'')" ?u "ascii ''UCx''" ?c
       example_runtime "[]"] h1 h2 h3 h4 h5 h6
  show ?thesis by blast
qed

subsection \<open>Level 3 and level 4\<close>

lemma verify_level3_result:
  assumes "getUserInfo apis biliUid = Inr biliUser"
    and "getChannel apis ytChannelId = Inr ytChannel"
    and "\<not> level1_succeeds rt biliUser ytChannel"
    and "\<not> checkBioMatch rt (bu_sign biliUser) (yc_description ytChannel) biliUid ytChannelId"
    and "getUserVideos apis biliUid 1 10 = Inr biliVideos"
    and "getChannelVideos apis ytChannelId 10 = Inr ytVideos"
  shows "verify_try rt apis biliUid ytChannelId = Inr (verify rt apis biliUid ytChannelId)"
    and "vr_confidence (verify rt apis biliUid ytChannelId) =
           Fin (level3_score rt biliUser ytChannel biliVideos ytVideos)"
    and "vr_success (verify rt apis biliUid ytChannelId) =
           (7 / 10 \<le> level3_score rt biliUser ytChannel biliVideos ytVideos)"
    and "vr_level (verify rt apis biliUid ytChannelId) =
           (if 7 / 10 \<le> level3_score rt biliUser ytChannel biliVideos ytVideos then 3 else 4)"
proof -
  obtain md where "verify_try rt apis biliUid ytChannelId =
      Inr (score_level3 rt biliUser ytChannel (nameSimilarityOf rt biliUser ytChannel) md
             biliVideos ytVideos)"
    using verify_reaches_level3 [OF assms] by blast
  then have *: "verify_try rt apis biliUid ytChannelId = Inr (verify rt apis biliUid ytChannelId)"
    "verify rt apis biliUid ytChannelId =
      score_level3 rt biliUser ytChannel (nameSimilarityOf rt biliUser ytChannel) md biliVideos ytVideos"
    by (simp_all add: verify_def)
  show "verify_try rt apis biliUid ytChannelId = Inr (verify rt apis biliUid ytChannelId)"
    by (rule *(1))
  show "vr_confidence (verify rt apis biliUid ytChannelId) =
           Fin (level3_score rt biliUser ytChannel biliVideos ytVideos)"
    by (simp add: *(2) level3_score_def score_level3_confidence)
  show "vr_success (verify rt apis biliUid ytChannelId) =
           (7 / 10 \<le> level3_score rt biliUser ytChannel biliVideos ytVideos)"
    by (simp add: *(2) level3_score_def score_level3_outcome)
  show "vr_level (verify rt apis biliUid ytChannelId) =
           (if 7 / 10 \<le> level3_score rt biliUser ytChannel biliVideos ytVideos then 3 else 4)"
    by (simp add: *(2) level3_score_def score_level3_outcome)
qed







text \<open>
  C9. In the level-3 tier, when the subscriber count of the target profile is missing, the
  ratio is \<open>NaN\<close>, both comparisons are false, \<open>verify\<close> returns from its \<open>try\<close> block
  without raising, and the confidence is the sum of the name and video contributions only.
\<close>

theorem verify_missing_subscriber_count:
  assumes "getUserInfo apis biliUid = Inr biliUser"
    and "getChannel apis ytChannelId = Inr ytChannel"
    and "\<not> level1_succeeds rt biliUser ytChannel"
    and "\<not> checkBioMatch rt (bu_sign biliUser) (yc_description ytChannel) biliUid ytChannelId"
    and "getUserVideos apis biliUid 1 10 = Inr biliVideos"
    and "getChannelVideos apis ytChannelId 10 = Inr ytVideos"
    and "yc_subscriberCount ytChannel = None"
  shows "verify_try rt apis biliUid ytChannelId = Inr (verify rt apis biliUid ytChannelId) \<and>
         ratio_bonus (followerRatioOf biliUser ytChannel) = 0 \<and>
         vr_confidence (verify rt apis biliUid ytChannelId) =
           Fin (name_bonus (nameSimilarityOf rt biliUser ytChannel) +
                video_bonus (matched_sources rt biliVideos ytVideos))"
proof -
  have "followerRatioOf biliUser ytChannel = NaN"
    using assms(7) by (simp add: followerRatioOf_def)
  then have "ratio_bonus (followerRatioOf biliUser ytChannel) = 0"
    by (simp add: ratio_bonus_def)
  then show ?thesis
    using verify_level3_result(1,2) [OF assms(1-6)] by (simp add: level3_score_def)
qed

text \<open>Equal names and one matching title, no subscriber count: 0.4 + 0.15.\<close>

theorem verify_missing_subscriber_count_witness:
  "yc_subscriberCount (example_channel (ascii ''UCx'') (ascii ''ab'') [] None None) = None \<and>
   getChannel apis_no_subscribers (ascii ''UCx'') =
     Inr (example_channel (ascii ''UCx'') (ascii ''ab'') [] None None) \<and>
   vr_confidence (verify example_runtime apis_no_subscribers (ascii ''1'') (ascii ''UCx'')) = Fin (11 / 20)"
proof -
  let ?u = "example_user (ascii ''1'') (ascii ''ab'') [] (Fin 100)"
  let ?c = "example_channel (ascii ''UCx'') (ascii ''ab'') [] None None"
  have h1: "getUserInfo apis_no_subscribers (ascii ''1'') = Inr ?u"
    and h2: "getChannel apis_no_subscribers (ascii ''UCx'') = Inr ?c"
    and h5: "getUserVideos apis_no_subscribers (ascii ''1'') 1 10 = Inr [example_bili_video (ascii ''x'')]"
    and h6: "getChannelVideos apis_no_subscribers (ascii ''UCx'') 10 = Inr [example_yt_video (ascii ''x'')]"
    by (simp_all add: apis_no_subscribers_def example_apis_def)
  have h3: "\<not> level1_succeeds example_runtime ?u ?c"
    by (simp add: level1_succeeds_def example_channel_def)
  have h4: "\<not> checkBioMatch example_runtime (bu_sign ?u) (yc_description ?c) (ascii ''1'') (ascii ''UCx'')"
    using example_no_bio_match by (simp add: example_user_def example_channel_def)
  have h7: "yc_subscriberCount ?c = None" by (simp add: example_channel_def)
  have v: "video_bonus (matched_sources example_runtime [example_bili_video (ascii ''x'')]
             [example_yt_video (ascii ''x'')]) = 3 / 20"
    by (simp add: matched_sources_def example_titles_similar video_bonus_def)
  from verify_missing_subscriber_count [OF h1 h2 h3 h4 h5 h6 h7] h2 h7 show ?thesis
    by (simp add: example_name_similarity name_bonus_def v)
qed

subsection \<open>Level 2\<close>

text \<open>\<open>includes\<close> is the search for a contiguous occurrence.\<close>

lemma starts_with_iff: "starts_with hay needle \<longleftrightarrow> (\<exists>rest. hay = needle @ rest)"
  by (induction hay needle rule: starts_with.induct) auto

lemma str_includes_iff: "str_includes hay needle \<longleftrightarrow> (\<exists>before after. hay = before @ needle @ after)"
proof (induction hay)
  case Nil
  then show ?case by (auto simp: starts_with_iff)
next
  case (Cons h hs)
  show ?case
  proof
    assume "str_includes (h # hs) needle"
    then consider "starts_with (h # hs) needle" | "str_includes hs needle" by auto
    then show "\<exists>before after. h # hs = before @ needle @ after"
    proof cases
      case 1
      then obtain rest where "h # hs = needle @ rest" by (auto simp: starts_with_iff)
      then have "h # hs = [] @ needle @ rest" by simp
      then show ?thesis by blast
    next
      case 2
      then obtain before after where "hs = before @ needle @ after" using Cons.IH by blast
      then have "h # hs = (h # before) @ needle @ after" by simp
      then show ?thesis by blast
    qed
  next
    assume "\<exists>before after. h # hs = before @ needle @ after"
    then obtain before after where eq: "h # hs = before @ needle @ after" by blast
    show "str_includes (h # hs) needle"
    proof (cases before)
      case Nil
      then have "starts_with (h # hs) needle" using eq by (auto simp: starts_with_iff)
      then show ?thesis by simp
    next
      case (Cons b bs)
      then have "hs = bs @ needle @ after" using eq by simp
      then have "str_includes hs needle" using Cons.IH by blast
      then show ?thesis by simp
    qed
  qed
qed








section \<open>Properties of the shard manager\<close>

lemma opt_prop_json:
  "is_finite_opt n \<Longrightarrow> map (map_prod id json_value) (opt_prop key JNum n) = opt_prop key JNum n"
  by (auto simp add: opt_prop_def is_finite_opt_def split: option.splits jsnum.splits)

lemma opt_prop_json_bool:
  "map (map_prod id json_value) (opt_prop key JBool b) = opt_prop key JBool b"
  by (simp add: opt_prop_def split: option.splits)

lemma opt_prop_json_str:
  "map (map_prod id json_value) (opt_prop key JStr s) = opt_prop key JStr s"
  by (simp add: opt_prop_def split: option.splits)

lemma json_value_metadata:
  "finite_metadata md \<Longrightarrow> json_value (metadata_value md) = metadata_value md"
  by (simp add: finite_metadata_def metadata_value_def opt_prop_json opt_prop_json_bool)

lemma json_value_mapping:
  "finite_mapping m \<Longrightarrow> json_value (mapping_value m) = mapping_value m"
  by (auto simp add: finite_mapping_def mapping_value_def opt_prop_json_str json_value_metadata
      opt_prop_def split: option.splits)

lemma map_of_update_same: "map_of (AList.update k v al) k = Some v"
  by (simp add: update_conv')

text \<open>
  \<open>readMapping\<close> returns the parsed content when the file exists, parses and no operation
  fails, and \<open>null\<close> in every other case.
\<close>

lemma readMapping_cases:
  "readMapping sm io fs userId =
     Inr (if io OpExists (getFullPath sm userId) = None \<and> io OpRead (getFullPath sm userId) = None
          then (case map_of fs (getFullPath sm userId) of Some (JsonText v) \<Rightarrow> v | _ \<Rightarrow> JNull)
          else JNull)"
  by (auto simp add: readMapping_def bun_exists_def bun_json_def Let_def
      split: option.splits file_content.splits)

lemma writeMapping_lookup:
  "writeMapping sm io fs userId m = Inr fs1 \<Longrightarrow>
   map_of fs1 (getFullPath sm userId) = Some (JsonText (json_value (mapping_value m)))"
  by (auto simp add: writeMapping_def bun_write_def Let_def JSON_stringify_def map_of_update_same
      split: option.splits)

lemma deleteMapping_lookup:
  "deleteMapping sm io fs userId = Inr fs1 \<Longrightarrow> map_of fs1 (getFullPath sm userId) = Some (NotJson [])"
  by (auto simp add: deleteMapping_def bun_write_def Let_def map_of_update_same split: option.splits)

text \<open>
  C5, amended. \<open>read(id)\<close> never raises. It returns \<open>null\<close> when the file at the shard
  path is missing or does not parse, and also when the existence check or the read fails with
  an I/O error: the \<open>catch\<close> block covers both calls and returns \<open>null\<close> for every
  error. It returns the parsed content otherwise.
\<close>

theorem readMapping_never_raises:
  "(\<exists>v. readMapping sm io fs userId = Inr v) \<and>
   (map_of fs (getFullPath sm userId) = None \<longrightarrow> readMapping sm io fs userId = Inr JNull) \<and>
   (map_of fs (getFullPath sm userId) = Some (NotJson t) \<longrightarrow> readMapping sm io fs userId = Inr JNull) \<and>
   (io OpExists (getFullPath sm userId) = Some e \<or> io OpRead (getFullPath sm userId) = Some e \<longrightarrow>
      readMapping sm io fs userId = Inr JNull) \<and>
   (io OpExists (getFullPath sm userId) = None \<and> io OpRead (getFullPath sm userId) = None \<and>
    map_of fs (getFullPath sm userId) = Some (JsonText v) \<longrightarrow> readMapping sm io fs userId = Inr v)"
  by (auto simp add: readMapping_cases)

text \<open>Reading from the empty store.\<close>

theorem readMapping_never_raises_witness:
  "map_of [] (getFullPath default_manager (ascii ''1'')) = None \<and>
   readMapping default_manager no_faults [] (ascii ''1'') = Inr JNull"
  using readMapping_never_raises [of default_manager no_faults "[]" "ascii ''1''"]
  by simp

text \<open>
  C5 as stated lets an unexpected I/O failure propagate. Here the file exists and holds a
  mapping, the read fails with an I/O error, and \<open>readMapping\<close> returns \<open>null\<close> instead
  of raising.
\<close>

theorem read_fault_swallowed_counterexample:
  "read_faults OpRead (getFullPath default_manager (ascii ''1'')) = Some (IOFault (ascii ''EIO'')) \<and>
   map_of (store_after_write default_manager (ascii ''1'') (example_mapping (ascii ''1'') (ascii ''UC1'') empty_metadata))
      (getFullPath default_manager (ascii ''1'')) \<noteq> None \<and>
   readMapping default_manager read_faults
     (store_after_write default_manager (ascii ''1'') (example_mapping (ascii ''1'') (ascii ''UC1'') empty_metadata))
     (ascii ''1'') = Inr JNull"
  by (simp add: readMapping_cases read_faults_def store_after_write_def map_of_update_same)

text \<open>
  C6, amended. For every identifier and every mapping whose numbers are all finite, a
  successful \<open>write(id, m)\<close> followed by a \<open>read(id)\<close> that meets no I/O failure returns
  \<open>m\<close>, whatever the store held before; in particular after \<open>write(id, prior)\<close> and
  \<open>write(id, m)\<close> the read returns \<open>m\<close>.
\<close>

theorem write_then_read:
  assumes "finite_mapping m"
    and "io' OpExists (getFullPath sm userId) = None"
    and "io' OpRead (getFullPath sm userId) = None"
  shows "(writeMapping sm io fs userId m = Inr fsw \<longrightarrow>
            readMapping sm io' fsw userId = Inr (mapping_value m)) \<and>
         (writeMapping sm ioa fs userId prior = Inr fsa \<and> writeMapping sm iob fsa userId m = Inr fsb \<longrightarrow>
            readMapping sm io' fsb userId = Inr (mapping_value m))"
  using assms by (auto simp add: readMapping_cases json_value_mapping dest!: writeMapping_lookup)

lemma writeMapping_no_faults:
  "writeMapping sm no_faults [] userId m = Inr (store_after_write sm userId m)"
  by (simp add: writeMapping_def bun_write_def no_faults_def Let_def store_after_write_def)

lemma writeMapping_no_faults_again:
  "writeMapping sm no_faults (store_after_write sm userId m1) userId m =
     Inr (AList.update (getFullPath sm userId) (JSON_stringify (mapping_value m))
            (AList.update (getShardDir sm userId @ ascii ''/.gitkeep'') (NotJson [])
               (store_after_write sm userId m1)))"
  by (simp add: writeMapping_def bun_write_def no_faults_def Let_def)

text \<open>One write into the empty store, then a read.\<close>

theorem write_then_read_witness:
  "finite_mapping (example_mapping (ascii ''1'') (ascii ''UC1'') empty_metadata) \<and>
   writeMapping default_manager no_faults [] (ascii ''1'') (example_mapping (ascii ''1'') (ascii ''UC1'') empty_metadata)
     = Inr (store_after_write default_manager (ascii ''1'') (example_mapping (ascii ''1'') (ascii ''UC1'') empty_metadata)) \<and>
   readMapping default_manager no_faults
     (store_after_write default_manager (ascii ''1'') (example_mapping (ascii ''1'') (ascii ''UC1'') empty_metadata))
     (ascii ''1'') = Inr (mapping_value (example_mapping (ascii ''1'') (ascii ''UC1'') empty_metadata))"
proof -
  let ?m = "example_mapping (ascii ''1'') (ascii ''UC1'') empty_metadata"
  have f: "finite_mapping ?m"
    by (simp add: finite_mapping_def example_mapping_def finite_metadata_def empty_metadata_def
        is_finite_opt_def)
  have e: "no_faults OpExists (getFullPath default_manager (ascii ''1'')) = None"
    and r: "no_faults OpRead (getFullPath default_manager (ascii ''1'')) = None"
    by (simp_all add: no_faults_def)
  from write_then_read [where io' = no_faults and sm = default_manager and userId = "ascii ''1''"
      and m = ?m and io = no_faults and fs = "[]"
      and fsw = "store_after_write default_manager (ascii ''1'') ?m"]
    f e r writeMapping_no_faults [of default_manager "ascii ''1''" ?m]
  show ?thesis by simp
qed

text \<open>
  C6 as stated holds for every mapping record. A mapping whose \<open>usernameSimilarity\<close> is
  \<open>NaN\<close> (which \<open>verify\<close> produces at level 2 when both normalized names are empty) is
  written with \<open>null\<close> in that place, and read back with \<open>null\<close>.
\<close>

theorem nan_not_read_back_counterexample:
  "writeMapping default_manager no_faults [] (ascii ''1'') (example_mapping (ascii ''1'') (ascii ''UC1'') nan_metadata)
     = Inr (store_after_write default_manager (ascii ''1'') (example_mapping (ascii ''1'') (ascii ''UC1'') nan_metadata)) \<and>
   readMapping default_manager no_faults
     (store_after_write default_manager (ascii ''1'') (example_mapping (ascii ''1'') (ascii ''UC1'') nan_metadata))
     (ascii ''1'')
     = Inr (json_value (mapping_value (example_mapping (ascii ''1'') (ascii ''UC1'') nan_metadata))) \<and>
   get_property (metadata_value nan_metadata) (ascii ''usernameSimilarity'') = Some (JNum NaN) \<and>
   get_property (json_value (metadata_value nan_metadata)) (ascii ''usernameSimilarity'') = Some JNull \<and>
   json_value (mapping_value (example_mapping (ascii ''1'') (ascii ''UC1'') nan_metadata))
     \<noteq> mapping_value (example_mapping (ascii ''1'') (ascii ''UC1'') nan_metadata)"
proof -
  let ?m = "example_mapping (ascii ''1'') (ascii ''UC1'') nan_metadata"
  have w: "writeMapping default_manager no_faults [] (ascii ''1'') ?m
             = Inr (store_after_write default_manager (ascii ''1'') ?m)"
    by (rule writeMapping_no_faults)
  have "map_of (store_after_write default_manager (ascii ''1'') ?m) (getFullPath default_manager (ascii ''1''))
          = Some (JsonText (json_value (mapping_value ?m)))"
    by (simp add: store_after_write_def map_of_update_same JSON_stringify_def)
  then have r: "readMapping default_manager no_faults (store_after_write default_manager (ascii ''1'') ?m)
             (ascii ''1'') = Inr (json_value (mapping_value ?m))"
    by (simp add: readMapping_cases no_faults_def)
  have g1: "get_property (metadata_value nan_metadata) (ascii ''usernameSimilarity'') = Some (JNum NaN)"
    by (simp add: nan_metadata_def metadata_value_def empty_metadata_def opt_prop_def)
  have g2: "get_property (json_value (metadata_value nan_metadata)) (ascii ''usernameSimilarity'') = Some JNull"
    by (simp add: nan_metadata_def metadata_value_def empty_metadata_def opt_prop_def)
  have ne: "json_value (mapping_value ?m) \<noteq> mapping_value ?m"
    by (simp add: mapping_value_def example_mapping_def opt_prop_def nan_metadata_def
        metadata_value_def empty_metadata_def)
  from w r g1 g2 ne show ?thesis by simp
qed

text \<open>
  C8. For every identifier whose mapping was written, after \<open>delete(id)\<close> the path still
  exists, so \<open>has(id)\<close> returns true (when its existence check meets no I/O failure), and
  \<open>read(id)\<close> returns \<open>null\<close>, the empty file being unparsable.
\<close>

theorem delete_keeps_path:
  assumes "writeMapping sm iow fs userId m = Inr fsw"
    and "deleteMapping sm iod fsw userId = Inr fsd"
    and "ioh OpExists (getFullPath sm userId) = None"
  shows "hasMapping sm ioh fsd userId = Inr True \<and> readMapping sm ior fsd userId = Inr JNull"
  using assms(3) deleteMapping_lookup [OF assms(2)]
  by (simp add: hasMapping_def bun_exists_def readMapping_cases)

text \<open>Write, delete, then \<open>has\<close> and \<open>read\<close>, all without faults.\<close>

theorem delete_keeps_path_witness:
  "writeMapping default_manager no_faults [] (ascii ''1'') (example_mapping (ascii ''1'') (ascii ''UC1'') empty_metadata)
     = Inr (store_after_write default_manager (ascii ''1'') (example_mapping (ascii ''1'') (ascii ''UC1'') empty_metadata)) \<and>
   deleteMapping default_manager no_faults
     (store_after_write default_manager (ascii ''1'') (example_mapping (ascii ''1'') (ascii ''UC1'') empty_metadata))
     (ascii ''1'')
     = Inr (AList.update (getFullPath default_manager (ascii ''1'')) (NotJson [])
             (store_after_write default_manager (ascii ''1'') (example_mapping (ascii ''1'') (ascii ''UC1'') empty_metadata))) \<and>
   hasMapping default_manager no_faults
     (AList.update (getFullPath default_manager (ascii ''1'')) (NotJson [])
        (store_after_write default_manager (ascii ''1'') (example_mapping (ascii ''1'') (ascii ''UC1'') empty_metadata)))
     (ascii ''1'') = Inr True \<and>
   readMapping default_manager no_faults
     (AList.update (getFullPath default_manager (ascii ''1'')) (NotJson [])
        (store_after_write default_manager (ascii ''1'') (example_mapping (ascii ''1'') (ascii ''UC1'') empty_metadata)))
     (ascii ''1'') = Inr JNull"
proof -
  let ?m = "example_mapping (ascii ''1'') (ascii ''UC1'') empty_metadata"
  let ?fs1 = "store_after_write default_manager (ascii ''1'') ?m"
  let ?fs2 = "AList.update (getFullPath default_manager (ascii ''1'')) (NotJson []) ?fs1"
  have w: "writeMapping default_manager no_faults [] (ascii ''1'') ?m = Inr ?fs1"
    by (rule writeMapping_no_faults)
  have d: "deleteMapping default_manager no_faults ?fs1 (ascii ''1'') = Inr ?fs2"
    by (simp add: deleteMapping_def bun_write_def no_faults_def Let_def)
  have e: "no_faults OpExists (getFullPath default_manager (ascii ''1'')) = None"
    by (simp add: no_faults_def)
  from delete_keeps_path [where ioh = no_faults and ior = no_faults and sm = default_manager
      and userId = "ascii ''1''" and fsd = ?fs2 and fsw = ?fs1 and m = ?m and iow = no_faults
      and iod = no_faults and fs = "[]"] w d e
  show ?thesis by simp
qed

subsection \<open>Paths and the scan\<close>











subsection \<open>The store after a list of writes\<close>











subsection \<open>The index\<close>












subsection \<open>Evaluation of SHA-256 on the examples\<close>

lemma sha_schedule_numeral [simp]:
  "sha_schedule (numeral k) ws =
     sha_schedule (pred_numeral k)
       (add32 (add32 (add32 (small_sigma1 (ws ! 1)) (ws ! 6)) (small_sigma0 (ws ! 14))) (ws ! 15) # ws)"
  by (simp add: numeral_eq_Suc)

lemma sha_blocks_numeral [simp]:
  "sha_blocks (numeral k) ws = take 16 ws # sha_blocks (pred_numeral k) (drop 16 ws)"
  by (simp add: numeral_eq_Suc)
























end
